theory Spec2Isabelle
  imports Complex_Main
begin

section \<open>Go values as the JSON path resolver returns them\<close>

text \<open>
  A Go \<^verbatim>\<open>float64\<close> is a finite binary rational, an infinity or a NaN. The finite
  case carries the exact value as a rational number (every finite float is one; the
  two zeroes compare equal in Go and are one value here).
\<close>

datatype float64 = Finite rat | PosInf | NegInf | NaN

text \<open>Go's \<^verbatim>\<open>==\<close> on floats: a NaN is equal to nothing, itself included.\<close>

fun float64_eq :: "float64 \<Rightarrow> float64 \<Rightarrow> bool" where
  "float64_eq (Finite a) (Finite b) = (a = b)"
| "float64_eq PosInf PosInf = True"
| "float64_eq NegInf NegInf = True"
| "float64_eq _ _ = False"

definition trunc_rat :: "rat \<Rightarrow> int" where
  "trunc_rat r = (if 0 \<le> r then \<lfloor>r\<rfloor> else \<lceil>r\<rceil>)"

text \<open>
  \<^verbatim>\<open>math.Modf(f)\<close> returns the integer part and the fractional part of \<open>f\<close>, both
  with the sign of \<open>f\<close>; \<^verbatim>\<open>Modf(\<plusminus>Inf) = \<plusminus>Inf, NaN\<close> and \<^verbatim>\<open>Modf(NaN) = NaN, NaN\<close>.
\<close>

fun math_Modf :: "float64 \<Rightarrow> float64 \<times> float64" where
  "math_Modf (Finite r) = (Finite (of_int (trunc_rat r)), Finite (r - of_int (trunc_rat r)))"
| "math_Modf PosInf = (PosInf, NaN)"
| "math_Modf NegInf = (NegInf, NaN)"
| "math_Modf NaN = (NaN, NaN)"

text \<open>
  The conversion \<^verbatim>\<open>int(f)\<close> of a float to Go's 64-bit \<^verbatim>\<open>int\<close> drops the fraction
  (truncation towards zero). Where the truncated value does not fit, and for infinities
  and NaN, the language leaves the result to the implementation: it is the parameter
  \<open>ovf\<close>.
\<close>

definition float64_to_int :: "(float64 \<Rightarrow> int) \<Rightarrow> float64 \<Rightarrow> int" where
  "float64_to_int ovf f =
     (case f of
        Finite r \<Rightarrow>
          (if - (2 ^ 63) \<le> trunc_rat r \<and> trunc_rat r < 2 ^ 63 then trunc_rat r else ovf f)
      | _ \<Rightarrow> ovf f)"

text \<open>The kinds of package \<^verbatim>\<open>reflect\<close>.\<close>

datatype int_kind =
    K_Int | K_Int8 | K_Int16 | K_Int32 | K_Int64 | K_Uint | K_Uint8 | K_Uint16 | K_Uint32 | K_Uint64

datatype other_kind =
    Uintptr | Complex64 | Complex128 | Array | Chan | Func | Pointer | Struct | UnsafePointer

datatype Kind =
    reflect_Invalid
  | reflect_Bool
  | reflect_Integer int_kind
  | reflect_Float32
  | reflect_Float64
  | reflect_Map
  | reflect_Slice
  | reflect_String
  | reflect_Other other_kind

text \<open>
  A value held in an \<^verbatim>\<open>interface{}\<close>: the untyped nil, or a value of one of Go's
  predeclared or composite types. A JSON decoder produces nil, bool, string, float64,
  map and slice only; the code also looks at the other kinds.
\<close>

datatype go_value =
    GoNil
  | GoBool bool
  | GoString string
  | GoInteger int_kind int
  | GoFloat32 float64
  | GoFloat64 float64
  | GoMap "(string \<times> go_value) list"
  | GoSlice "go_value list"
  | GoOther other_kind

text \<open>\<^verbatim>\<open>reflect.ValueOf(v).Kind()\<close>; the zero Value of a nil interface has kind Invalid.\<close>

fun Kind_of :: "go_value \<Rightarrow> Kind" where
  "Kind_of GoNil = reflect_Invalid"
| "Kind_of (GoBool _) = reflect_Bool"
| "Kind_of (GoString _) = reflect_String"
| "Kind_of (GoInteger k _) = reflect_Integer k"
| "Kind_of (GoFloat32 _) = reflect_Float32"
| "Kind_of (GoFloat64 _) = reflect_Float64"
| "Kind_of (GoMap _) = reflect_Map"
| "Kind_of (GoSlice _) = reflect_Slice"
| "Kind_of (GoOther k) = reflect_Other k"

definition IsValid :: "go_value \<Rightarrow> bool" where
  "IsValid v = (Kind_of v \<noteq> reflect_Invalid)"

text \<open>
  \<^verbatim>\<open>Value.Float()\<close>, which the code calls on values of kind Float32 or Float64 only
  (on another kind it panics; the result there is not used by the model).
\<close>

fun Value_Float :: "go_value \<Rightarrow> float64" where
  "Value_Float (GoFloat64 f) = f"
| "Value_Float (GoFloat32 f) = f"
| "Value_Float _ = NaN"

text \<open>\<^verbatim>\<open>Value.Len()\<close>, called on slices only.\<close>

fun Value_Len :: "go_value \<Rightarrow> int" where
  "Value_Len (GoSlice xs) = int (length xs)"
| "Value_Len _ = 0"

section \<open>Errors\<close>

text \<open>
  The package's sentinel errors. The code builds its errors with
  \<^verbatim>\<open>fmt.Errorf("%w: ...", sentinel, args)\<close>: such an error wraps the sentinel (what
  \<^verbatim>\<open>errors.Is\<close> sees) and carries a message. A message is kept as its format together
  with the arguments, one constructor for each format string of the code.
\<close>

datatype sentinel = ErrGdutils | ErrHTTPReqRes | ErrQJSON | ErrJson | ErrPreservedData

datatype message =
    MsgCause string
      \<comment> \<open>\<^verbatim>\<open>"%w: %s"\<close> with the text of the underlying error\<close>
  | MsgCouldNotParseHeaders string string
      \<comment> \<open>\<^verbatim>\<open>"%w: could not parse provided headers: \n\n%s\n\nerr: %s"\<close>\<close>
  | MsgNotARequest string
      \<comment> \<open>\<^verbatim>\<open>"%w: value under key %s in cache doesn't contain *http.Request"\<close>\<close>
  | MsgNode string string
      \<comment> \<open>\<^verbatim>\<open>"%w, node '%s', err: %s"\<close>\<close>
  | MsgValueIs string string
      \<comment> \<open>\<^verbatim>\<open>"%w: %s value is \"%s\", but expected not to be"\<close>\<close>
  | MsgValueIsNot string string
      \<comment> \<open>\<^verbatim>\<open>"%w: %s value is not \"%s\", but expected to be"\<close>\<close>
  | MsgUnknownType string
      \<comment> \<open>\<^verbatim>\<open>"%w: %s is unknown type for this step"\<close>\<close>
  | MsgSliceLength string int int
      \<comment> \<open>\<^verbatim>\<open>"%w: %s slice has length: %d, expected: %d"\<close>\<close>
  | MsgNotSlice string
      \<comment> \<open>\<^verbatim>\<open>"%w: %s does not point at slice(array) in last HTTP(s) response JSON body"\<close>\<close>
  | MsgExpectedToBe string string go_value
      \<comment> \<open>\<^verbatim>\<open>"%w: expected %s to be %s, got %v"\<close>\<close>
  | MsgStringNotEqual string string string
      \<comment> \<open>\<^verbatim>\<open>"%w: node %s string value: %s is not equal to expected string value: %s"\<close>\<close>
  | MsgNotConvertible string string string
      \<comment> \<open>\<^verbatim>\<open>"%w: replaced node %s value %s could not be converted to <type>"\<close>\<close>
  | MsgIntNotEqual string int int
      \<comment> \<open>\<^verbatim>\<open>"%w: node %s int value: %d is not equal to expected int value: %d"\<close>\<close>
  | MsgFloatNotEqual string float64 float64
      \<comment> \<open>\<^verbatim>\<open>"%w: node %s float value %f is not equal to expected float value %f"\<close>\<close>
  | MsgBoolNotEqual string bool bool
      \<comment> \<open>\<^verbatim>\<open>"%w: node %s bool value %t is not equal to expected bool value %t"\<close>\<close>
  | MsgCouldNotFindHeader string
      \<comment> \<open>\<^verbatim>\<open>"%w: could not find header %s in last HTTP response"\<close>\<close>
  | MsgHeaderValue string string string
      \<comment> \<open>\<^verbatim>\<open>"%w: %s header exists but, expected value: %s, is not equal to actual: %s"\<close>\<close>

text \<open>
  An error is one the code built, or one a collaborator returned and the code passes on
  as it is (\<^verbatim>\<open>return err\<close>); of the latter only the text is known.
\<close>

datatype error = Errorf sentinel message | Foreign string

text \<open>
  The sentinel an error wraps is its kind: it is what \<^verbatim>\<open>errors.Is\<close> tells of an error,
  the rest being the text of the message.
\<close>

fun wrapped :: "error \<Rightarrow> sentinel option" where
  "wrapped (Errorf e _) = Some e"
| "wrapped (Foreign _) = None"

section \<open>Requests, responses, the cache and the state\<close>

type_synonym bytes = string

text \<open>
  \<^verbatim>\<open>http.Header\<close> maps a canonical header name to the list of its values. The body of a
  request is nil or a reader over bytes.
\<close>

type_synonym Header = "string \<rightharpoonup> string list"

record Request =
  Method :: string
  URL :: string
  Header :: Header
  Body :: "bytes option"

record Response =
  StatusCode :: int
  Response_Header :: Header
  Response_Body :: bytes

text \<open>
  The cache holds values of any type under string keys. A prepared request is held by
  reference (\<^verbatim>\<open>*http.Request\<close>): the cache entry is the address, the object lives in
  the heap of the state. Every address holds a request, so the nil pointer is not a
  value here.
\<close>

datatype cache_value =
    CRequest nat
  | CResponse Response
  | CTime nat
  | CValue go_value

type_synonym cache = "string \<rightharpoonup> cache_value"

text \<open>
  What \<^verbatim>\<open>Do\<close> of the HTTP client gives back: the result or the transport's error, the
  time it took, and the state it left the request object in (the request is passed by
  reference, and a transport reads its body).
\<close>

record DoOutcome =
  ReqAfter :: Request
  Elapsed :: nat
  Result :: "string + Response"

text \<open>
  The HTTP context is an interface whose implementation is not part of these sources. Its
  answers are functions of what they may depend on: the client's \<^verbatim>\<open>Do\<close> of the time
  of dispatch and the request, the last response and its body of the cache.
\<close>

record HttpContext =
  GetHTTPClient_Do :: "nat \<Rightarrow> Request \<Rightarrow> DoOutcome"
  GetLastResponse :: "cache \<Rightarrow> string + Response"
  GetLastResponseBody :: "cache \<Rightarrow> string + bytes"

record BodyHeaders =
  BH_Body :: go_value
  BH_Headers :: "(string \<times> string) list"

text \<open>
  The deserializer fills a \<^verbatim>\<open>BodyHeaders\<close> or a \<^verbatim>\<open>map[string]string\<close>. A Go map is
  ranged over in no fixed order: the list of a deserialized map is its entries in the
  order the \<^verbatim>\<open>range\<close> loop visits them.
\<close>

record Deserializer =
  Deserialize_BodyHeaders :: "bytes \<Rightarrow> string + BodyHeaders"
  Deserialize_Headers :: "bytes \<Rightarrow> string + (string \<times> string) list"

datatype debug_line =
    DbgCurlCommand Request
  | DbgLastResponseBody "string + bytes"
  | DbgReplacedValue string
  | DbgCouldNotObtainHeaders
  | DbgLastResponseHeaders Header

record Debugger =
  IsOn :: bool
  Printed :: "debug_line list"

text \<open>
  The state of the steps: the injected services of the \<^verbatim>\<open>State\<close> struct, and the part
  of the world the steps act on (the heap of request objects, the wall clock, and the
  requests handed to the HTTP client so far). The cache is its content together with
  the text of the error it returns for a key it does not hold.
\<close>

record State =
  Debugger :: Debugger
  Cache :: cache
  Cache_NotFound :: "string \<Rightarrow> string"
  HttpContext :: HttpContext
  TemplateEngine :: "string \<Rightarrow> cache \<Rightarrow> string + string"
  Deserializer :: Deserializer
  JSONPathResolver :: "string \<Rightarrow> bytes \<Rightarrow> string + go_value"
  Heap :: "nat \<Rightarrow> Request"
  Clock :: nat
  Dispatched :: "Request list"

text \<open>
  What the code uses and these sources do not hold: the constants of package
  \<^verbatim>\<open>httpcache\<close>, the helper \<^verbatim>\<open>reflectutils.IsValueNil\<close>, and functions of Go's
  library that are taken as they are (\<^verbatim>\<open>strconv.ParseFloat\<close>, \<^verbatim>\<open>json.Marshal\<close>,
  \<^verbatim>\<open>http.NewRequest\<close>, the canonical form of a header name, the result of an
  out-of-range float to int conversion).
\<close>

record Env =
  LastHTTPResponseCacheKey :: string
  LastHTTPRequestTimestamp :: string
  LastHTTPResponseTimestamp :: string
  IsValueNil :: "go_value \<Rightarrow> bool"
  strconv_ParseFloat :: "string \<Rightarrow> float64 option"
  json_Marshal :: "go_value \<Rightarrow> string + bytes"
  http_NewRequest :: "string \<Rightarrow> string \<Rightarrow> bytes option \<Rightarrow> string + Request"
  CanonicalMIMEHeaderKey :: "string \<Rightarrow> string"
  int_overflow :: "float64 \<Rightarrow> int"

subsection \<open>Cache, debugger, clock, headers\<close>

text \<open>
  Modelled from the spec: package \<^verbatim>\<open>cache\<close> is not part of these sources. Save
  inserts or overwrites unconditionally; GetSaved returns the value or fails with a
  not-found error.
\<close>

definition Cache_Save :: "string \<Rightarrow> cache_value \<Rightarrow> State \<Rightarrow> State" where
  "Cache_Save key v s = s\<lparr>Cache := (Cache s)(key \<mapsto> v)\<rparr>"

definition Cache_GetSaved :: "State \<Rightarrow> string \<Rightarrow> string + cache_value" where
  "Cache_GetSaved s key =
     (case Cache s key of None \<Rightarrow> Inl (Cache_NotFound s key) | Some v \<Rightarrow> Inr v)"

definition Debugger_Print :: "debug_line \<Rightarrow> State \<Rightarrow> State" where
  "Debugger_Print l s = s\<lparr>Debugger := (Debugger s)\<lparr>Printed := Printed (Debugger s) @ [l]\<rparr>\<rparr>"

definition time_Now :: "State \<Rightarrow> nat" where
  "time_Now s = Clock s"

definition Header_Set :: "Env \<Rightarrow> Header \<Rightarrow> string \<Rightarrow> string \<Rightarrow> Header" where
  "Header_Set env h key v = h(CanonicalMIMEHeaderKey env key \<mapsto> [v])"

definition Header_Get :: "Env \<Rightarrow> Header \<Rightarrow> string \<Rightarrow> string" where
  "Header_Get env h key =
     (case h (CanonicalMIMEHeaderKey env key) of
        None \<Rightarrow> []
      | Some [] \<Rightarrow> []
      | Some (v # _) \<Rightarrow> v)"

text \<open>
  Handing a request to the HTTP client: the request is recorded as dispatched and the
  clock moves on. The client's answer comes with the state it left the request in.
\<close>

definition HTTPClient_Do :: "State \<Rightarrow> Request \<Rightarrow> (string + Response) \<times> Request \<times> State" where
  "HTTPClient_Do s r =
     (let out = GetHTTPClient_Do (HttpContext s) (Clock s) r
      in (Result out, ReqAfter out,
          s\<lparr>Clock := Clock s + Elapsed out, Dispatched := Dispatched s @ [r]\<rparr>))"

text \<open>The debug line with the body of the last response, printed when the debugger is on.\<close>

definition print_last_response_body :: "State \<Rightarrow> State" where
  "print_last_response_body s =
     (if IsOn (Debugger s)
      then Debugger_Print (DbgLastResponseBody (GetLastResponseBody (HttpContext s) (Cache s))) s
      else s)"

section \<open>Sending requests\<close>

definition getPreparedRequest :: "State \<Rightarrow> string \<Rightarrow> error + nat" where
  "getPreparedRequest s cacheKey =
     (case Cache_GetSaved s cacheKey of
        Inl err \<Rightarrow> Inl (Errorf ErrGdutils (MsgCause err))
      | Inr reqInterface \<Rightarrow>
          (case reqInterface of
             CRequest req \<Rightarrow> Inr req
           | _ \<Rightarrow> Inl (Errorf ErrPreservedData (MsgNotARequest cacheKey))))"

text \<open>The loop \<^verbatim>\<open>for name, value := range headers { req.Header.Set(name, value) }\<close>.\<close>

fun set_headers :: "Env \<Rightarrow> Header \<Rightarrow> (string \<times> string) list \<Rightarrow> Header" where
  "set_headers env h [] = h"
| "set_headers env h ((hName, hValue) # rest) = set_headers env (Header_Set env h hName hValue) rest"

definition ISendRequestToWithBodyAndHeaders ::
    "Env \<Rightarrow> State \<Rightarrow> string \<Rightarrow> string \<Rightarrow> string \<Rightarrow> error option \<times> State" where
  "ISendRequestToWithBodyAndHeaders env s method urlTemplate bodyTemplate =
     (case TemplateEngine s bodyTemplate (Cache s) of
        Inl err \<Rightarrow> (Some (Foreign err), s)
      | Inr input \<Rightarrow>
     (case TemplateEngine s urlTemplate (Cache s) of
        Inl err \<Rightarrow> (Some (Foreign err), s)
      | Inr url \<Rightarrow>
     (case Deserialize_BodyHeaders (Deserializer s) input of
        Inl err \<Rightarrow> (Some (Errorf ErrJson (MsgCause err)), s)
      | Inr bodyAndHeaders \<Rightarrow>
     (case json_Marshal env (BH_Body bodyAndHeaders) of
        Inl err \<Rightarrow> (Some (Errorf ErrJson (MsgCause err)), s)
      | Inr reqBody \<Rightarrow>
     (case http_NewRequest env method url (Some reqBody) of
        Inl err \<Rightarrow> (Some (Errorf ErrHTTPReqRes (MsgCause err)), s)
      | Inr req0 \<Rightarrow>
          (let req = req0\<lparr>Header := set_headers env (Header req0) (BH_Headers bodyAndHeaders)\<rparr>;
               s1 = (if IsOn (Debugger s) then Debugger_Print (DbgCurlCommand req) s else s);
               s2 = Cache_Save (LastHTTPRequestTimestamp env) (CTime (time_Now s1)) s1
           in (case HTTPClient_Do s2 req of
                 (Inl err, _, s3) \<Rightarrow> (Some (Errorf ErrHTTPReqRes (MsgCause err)), s3)
               | (Inr resp, _, s3) \<Rightarrow>
                   (let s4 = Cache_Save (LastHTTPResponseTimestamp env) (CTime (time_Now s3)) s3;
                        s5 = Cache_Save (LastHTTPResponseCacheKey env) (CResponse resp) s4
                    in (None, print_last_response_body s5)))))))))"

definition ISetFollowingHeadersForPreparedRequest ::
    "Env \<Rightarrow> State \<Rightarrow> string \<Rightarrow> string \<Rightarrow> error option \<times> State" where
  "ISetFollowingHeadersForPreparedRequest env s cacheKey headersTemplate =
     (case TemplateEngine s headersTemplate (Cache s) of
        Inl err \<Rightarrow> (Some (Foreign err), s)
      | Inr headers \<Rightarrow>
     (case Deserialize_Headers (Deserializer s) headers of
        Inl err \<Rightarrow> (Some (Errorf ErrGdutils (MsgCouldNotParseHeaders headers err)), s)
      | Inr headersMap \<Rightarrow>
     (case getPreparedRequest s cacheKey of
        Inl err \<Rightarrow> (Some err, s)
      | Inr req \<Rightarrow>
          (let r = Heap s req;
               s1 = s\<lparr>Heap := (Heap s)(req := r\<lparr>Header := set_headers env (Header r) headersMap\<rparr>)\<rparr>
           in (None, Cache_Save cacheKey (CRequest req) s1)))))"

definition ISetFollowingBodyForPreparedRequest ::
    "State \<Rightarrow> string \<Rightarrow> string \<Rightarrow> error option \<times> State" where
  "ISetFollowingBodyForPreparedRequest s cacheKey bodyTemplate =
     (case TemplateEngine s bodyTemplate (Cache s) of
        Inl err \<Rightarrow> (Some (Foreign err), s)
      | Inr body \<Rightarrow>
     (case getPreparedRequest s cacheKey of
        Inl err \<Rightarrow> (Some err, s)
      | Inr req \<Rightarrow>
          (let s1 = s\<lparr>Heap := (Heap s)(req := (Heap s req)\<lparr>Body := Some body\<rparr>)\<rparr>
           in (None, Cache_Save cacheKey (CRequest req) s1))))"

definition ISendRequest :: "Env \<Rightarrow> State \<Rightarrow> string \<Rightarrow> error option \<times> State" where
  "ISendRequest env s cacheKey =
     (case getPreparedRequest s cacheKey of
        Inl err \<Rightarrow> (Some err, s)
      | Inr req \<Rightarrow>
          (let s1 = (if IsOn (Debugger s) then Debugger_Print (DbgCurlCommand (Heap s req)) s else s);
               s2 = Cache_Save (LastHTTPRequestTimestamp env) (CTime (time_Now s1)) s1
           in (case HTTPClient_Do s2 (Heap s2 req) of
                 (Inl err, r', s3) \<Rightarrow>
                   (Some (Errorf ErrHTTPReqRes (MsgCause err)), s3\<lparr>Heap := (Heap s3)(req := r')\<rparr>)
               | (Inr resp, r', s3) \<Rightarrow>
                   (let s3' = s3\<lparr>Heap := (Heap s3)(req := r')\<rparr>;
                        s4 = Cache_Save (LastHTTPResponseTimestamp env) (CTime (time_Now s3')) s3';
                        s5 = Cache_Save (LastHTTPResponseCacheKey env) (CResponse resp) s4
                    in (None, print_last_response_body s5)))))"

section \<open>Assertions on the last response\<close>

subsection \<open>Functions of package strconv\<close>

definition is_digit :: "char \<Rightarrow> bool" where
  "is_digit c = (c \<in> set ''0123456789'')"

definition digits_value :: "string \<Rightarrow> nat" where
  "digits_value ds = foldl (\<lambda>n c. n * 10 + (of_char c - 48)) 0 ds"

text \<open>
  \<^verbatim>\<open>strconv.Atoi\<close> with a 64-bit \<^verbatim>\<open>int\<close>: an optional sign, then one or more decimal
  digits and nothing else; a value outside the range of int64 is an error. The code only
  asks whether there was an error, so the result is an option.
\<close>

definition strconv_Atoi :: "string \<Rightarrow> int option" where
  "strconv_Atoi s =
     (let neg = (s \<noteq> [] \<and> hd s = CHR ''-'');
          ds = (if s \<noteq> [] \<and> (hd s = CHR ''-'' \<or> hd s = CHR ''+'') then tl s else s);
          n = (if neg then - int (digits_value ds) else int (digits_value ds))
      in if ds = [] \<or> \<not> list_all is_digit ds then None
         else if n < - (2 ^ 63) \<or> 2 ^ 63 \<le> n then None
         else Some n)"

definition strconv_ParseBool :: "string \<Rightarrow> bool option" where
  "strconv_ParseBool str =
     (if str \<in> set [''1'', ''t'', ''T'', ''true'', ''TRUE'', ''True''] then Some True
      else if str \<in> set [''0'', ''f'', ''F'', ''false'', ''FALSE'', ''False''] then Some False
      else None)"

subsection \<open>The type of a JSON node\<close>

definition TheJSONNodeShouldNotBe :: "Env \<Rightarrow> State \<Rightarrow> string \<Rightarrow> string \<Rightarrow> error option" where
  "TheJSONNodeShouldNotBe env s expr goType =
     (case GetLastResponseBody (HttpContext s) (Cache s) of
        Inl err \<Rightarrow> Some (Foreign err)
      | Inr body \<Rightarrow>
     (case JSONPathResolver s expr body of
        Inl err \<Rightarrow> Some (Errorf ErrQJSON (MsgNode expr err))
      | Inr iNodeVal \<Rightarrow>
          (let errInvalidType = Errorf ErrGdutils (MsgValueIs expr goType);
               kind = Kind_of iNodeVal
           in if goType = ''nil'' then
                (if \<not> IsValid iNodeVal \<or> IsValueNil env iNodeVal then Some errInvalidType
                 else None)
              else if goType = ''string'' then
                (if kind = reflect_String then Some errInvalidType else None)
              else if goType = ''int'' then
                (if kind = reflect_Integer K_Int64 \<or> kind = reflect_Integer K_Int32
                    \<or> kind = reflect_Integer K_Int16 \<or> kind = reflect_Integer K_Int8
                    \<or> kind = reflect_Integer K_Int \<or> kind = reflect_Integer K_Uint
                    \<or> kind = reflect_Integer K_Uint8 \<or> kind = reflect_Integer K_Uint16
                    \<or> kind = reflect_Integer K_Uint32 \<or> kind = reflect_Integer K_Uint64
                 then Some errInvalidType
                 else if kind = reflect_Float64
                         \<and> float64_eq (snd (math_Modf (Value_Float iNodeVal))) (Finite 0)
                 then Some errInvalidType
                 else None)
              else if goType = ''float'' then
                (if kind = reflect_Float64 \<or> kind = reflect_Float32 then
                   (if float64_eq (snd (math_Modf (Value_Float iNodeVal))) (Finite 0) then None
                    else Some errInvalidType)
                 else None)
              else if goType = ''bool'' then
                (if kind = reflect_Bool then Some errInvalidType else None)
              else if goType = ''map'' then
                (if kind = reflect_Map then Some errInvalidType else None)
              else if goType = ''slice'' then
                (if kind = reflect_Slice then Some errInvalidType else None)
              else Some (Errorf ErrGdutils (MsgUnknownType goType)))))"

definition TheJSONNodeShouldBe :: "Env \<Rightarrow> State \<Rightarrow> string \<Rightarrow> string \<Rightarrow> error option" where
  "TheJSONNodeShouldBe env s expr goType =
     (let errInvalidType = Errorf ErrGdutils (MsgValueIsNot expr goType)
      in if goType \<in> set [''nil'', ''string'', ''int'', ''float'', ''bool'', ''map'', ''slice''] then
           (if TheJSONNodeShouldNotBe env s expr goType = None then Some errInvalidType
            else None)
         else Some (Errorf ErrGdutils (MsgUnknownType goType)))"

subsection \<open>The length of a slice\<close>

definition TheJSONNodeShouldBeSliceOfLength ::
    "State \<Rightarrow> string \<Rightarrow> int \<Rightarrow> error option \<times> State" where
  "TheJSONNodeShouldBeSliceOfLength s expr len =
     (case GetLastResponseBody (HttpContext s) (Cache s) of
        Inl err \<Rightarrow> (Some (Foreign err), s)
      | Inr body \<Rightarrow>
     (case JSONPathResolver s expr body of
        Inl err \<Rightarrow> (Some (Errorf ErrQJSON (MsgNode expr err)), print_last_response_body s)
      | Inr iValue \<Rightarrow>
          if Kind_of iValue = reflect_Slice then
            (if Value_Len iValue \<noteq> len
             then (Some (Errorf ErrGdutils (MsgSliceLength expr (Value_Len iValue) len)), s)
             else (None, s))
          else (Some (Errorf ErrGdutils (MsgNotSlice expr)), print_last_response_body s)))"

subsection \<open>The value of a JSON node\<close>

text \<open>The type assertions \<^verbatim>\<open>iValue.(string)\<close>, \<^verbatim>\<open>iValue.(float64)\<close>, \<^verbatim>\<open>iValue.(bool)\<close>.\<close>

fun as_string :: "go_value \<Rightarrow> string option" where
  "as_string (GoString x) = Some x"
| "as_string _ = None"

fun as_float64 :: "go_value \<Rightarrow> float64 option" where
  "as_float64 (GoFloat64 f) = Some f"
| "as_float64 _ = None"

fun as_bool :: "go_value \<Rightarrow> bool option" where
  "as_bool (GoBool b) = Some b"
| "as_bool _ = None"

text \<open>The \<^verbatim>\<open>switch dataType\<close> of TheJSONNodeShouldBeOfValue; it has no default case.\<close>

definition compare_node_value :: "Env \<Rightarrow> string \<Rightarrow> string \<Rightarrow> string \<Rightarrow> go_value \<Rightarrow> error option" where
  "compare_node_value env expr dataType nodeValueReplaced iValue =
     (if dataType = ''string'' then
        (case as_string iValue of
           None \<Rightarrow> Some (Errorf ErrGdutils (MsgExpectedToBe expr dataType iValue))
         | Some strVal \<Rightarrow>
             if strVal \<noteq> nodeValueReplaced
             then Some (Errorf ErrGdutils (MsgStringNotEqual expr strVal nodeValueReplaced))
             else None)
      else if dataType = ''int'' then
        (case as_float64 iValue of
           None \<Rightarrow> Some (Errorf ErrGdutils (MsgExpectedToBe expr dataType iValue))
         | Some floatVal \<Rightarrow>
             (let intVal = float64_to_int (int_overflow env) floatVal
              in case strconv_Atoi nodeValueReplaced of
                   None \<Rightarrow> Some (Errorf ErrGdutils (MsgNotConvertible expr nodeValueReplaced ''int''))
                 | Some intNodeValue \<Rightarrow>
                     if intVal \<noteq> intNodeValue
                     then Some (Errorf ErrGdutils (MsgIntNotEqual expr intVal intNodeValue))
                     else None))
      else if dataType = ''float'' then
        (case as_float64 iValue of
           None \<Rightarrow> Some (Errorf ErrGdutils (MsgExpectedToBe expr dataType iValue))
         | Some floatVal \<Rightarrow>
             (case strconv_ParseFloat env nodeValueReplaced of
                None \<Rightarrow>
                  Some (Errorf ErrGdutils (MsgNotConvertible expr nodeValueReplaced ''float64''))
              | Some floatNodeValue \<Rightarrow>
                  if \<not> float64_eq floatVal floatNodeValue
                  then Some (Errorf ErrGdutils (MsgFloatNotEqual expr floatVal floatNodeValue))
                  else None))
      else if dataType = ''bool'' then
        (case as_bool iValue of
           None \<Rightarrow> Some (Errorf ErrGdutils (MsgExpectedToBe expr dataType iValue))
         | Some boolVal \<Rightarrow>
             (case strconv_ParseBool nodeValueReplaced of
                None \<Rightarrow>
                  Some (Errorf ErrGdutils (MsgNotConvertible expr nodeValueReplaced ''bool''))
              | Some boolNodeValue \<Rightarrow>
                  if boolVal \<noteq> boolNodeValue
                  then Some (Errorf ErrGdutils (MsgBoolNotEqual expr boolVal boolNodeValue))
                  else None))
      else None)"

definition TheJSONNodeShouldBeOfValue ::
    "Env \<Rightarrow> State \<Rightarrow> string \<Rightarrow> string \<Rightarrow> string \<Rightarrow> error option \<times> State" where
  "TheJSONNodeShouldBeOfValue env s expr dataType dataValue =
     (case TemplateEngine s dataValue (Cache s) of
        Inl err \<Rightarrow> (Some (Foreign err), s)
      | Inr nodeValueReplaced \<Rightarrow>
          (let s1 = (if IsOn (Debugger s)
                     then Debugger_Print (DbgReplacedValue nodeValueReplaced) s else s)
           in case GetLastResponseBody (HttpContext s1) (Cache s1) of
                Inl err \<Rightarrow> (Some (Foreign err), s1)
              | Inr body \<Rightarrow>
                  (case JSONPathResolver s1 expr body of
                     Inl err \<Rightarrow>
                       (Some (Errorf ErrQJSON (MsgNode expr err)), print_last_response_body s1)
                   | Inr iValue \<Rightarrow>
                       (compare_node_value env expr dataType nodeValueReplaced iValue,
                        print_last_response_body s1))))"

subsection \<open>The value of a response header\<close>

text \<open>
  How a call ends: it returns (nil or an error) or it panics. With the debugger on, the
  deferred function of TheResponseShouldHaveHeaderOfValue reads \<^verbatim>\<open>lastResp.Header\<close>
  also when \<^verbatim>\<open>GetLastResponse\<close> has failed; the model takes the response pointer
  that comes with an error to be nil, as is Go's convention, so that this read panics.
\<close>

datatype outcome = Returned "error option" | Panicked

definition print_last_response_headers :: "State \<Rightarrow> bool \<times> State" where
  "print_last_response_headers s =
     (if IsOn (Debugger s) then
        (case GetLastResponse (HttpContext s) (Cache s) of
           Inl err \<Rightarrow> (True, Debugger_Print DbgCouldNotObtainHeaders s)
         | Inr lastResp \<Rightarrow>
             (False, Debugger_Print (DbgLastResponseHeaders (Response_Header lastResp)) s))
      else (False, s))"

definition header_value_check :: "Env \<Rightarrow> State \<Rightarrow> string \<Rightarrow> string \<Rightarrow> error option" where
  "header_value_check env s name valueTemplate =
     (case GetLastResponse (HttpContext s) (Cache s) of
        Inl err \<Rightarrow> Some (Errorf ErrHTTPReqRes (MsgCause err))
      | Inr lastResp \<Rightarrow>
          (let header = Header_Get env (Response_Header lastResp) name
           in case TemplateEngine s valueTemplate (Cache s) of
                Inl err \<Rightarrow> Some (Errorf ErrGdutils (MsgCause err))
              | Inr v \<Rightarrow>
                  if header = [] \<and> v = [] then
                    Some (Errorf ErrHTTPReqRes (MsgCouldNotFindHeader name))
                  else if header = v then None
                  else Some (Errorf ErrHTTPReqRes (MsgHeaderValue name v header))))"

definition TheResponseShouldHaveHeaderOfValue ::
    "Env \<Rightarrow> State \<Rightarrow> string \<Rightarrow> string \<Rightarrow> outcome \<times> State" where
  "TheResponseShouldHaveHeaderOfValue env s name valueTemplate =
     (let result = header_value_check env s name valueTemplate;
          (panicked, s') = print_last_response_headers s
      in (if panicked then Panicked else Returned result, s'))"

section \<open>Concrete environments and states\<close>

text \<open>
  An environment and a family of states to run the steps on: the template engine leaves
  a text as it is, header names are taken as canonical, the JSON path resolver looks an
  expression up in the association list \<open>doc\<close>, and the transport refuses every
  connection.
\<close>

definition demo_env :: Env where
  "demo_env =
     \<lparr>LastHTTPResponseCacheKey = ''LAST_HTTP_RESPONSE'',
      LastHTTPRequestTimestamp = ''LAST_HTTP_REQUEST_TIMESTAMP'',
      LastHTTPResponseTimestamp = ''LAST_HTTP_RESPONSE_TIMESTAMP'',
      IsValueNil = (\<lambda>v. False),
      strconv_ParseFloat = (\<lambda>x. None),
      json_Marshal = (\<lambda>v. Inr ''null''),
      http_NewRequest = (\<lambda>m u b. Inr \<lparr>Method = m, URL = u, Header = Map.empty, Body = b\<rparr>),
      CanonicalMIMEHeaderKey = (\<lambda>k. k),
      int_overflow = (\<lambda>f. - (2 ^ 63))\<rparr>"

definition demo_request :: Request where
  "demo_request = \<lparr>Method = ''GET'', URL = ''http://localhost/'', Header = Map.empty, Body = None\<rparr>"

definition demo_http :: HttpContext where
  "demo_http =
     \<lparr>GetHTTPClient_Do = (\<lambda>t r. \<lparr>ReqAfter = r, Elapsed = 1, Result = Inl ''connection refused''\<rparr>),
      GetLastResponse =
        (\<lambda>c. case c ''LAST_HTTP_RESPONSE'' of Some (CResponse r) \<Rightarrow> Inr r | _ \<Rightarrow> Inl ''no response''),
      GetLastResponseBody =
        (\<lambda>c. case c ''LAST_HTTP_RESPONSE'' of
               Some (CResponse r) \<Rightarrow> Inr (Response_Body r) | _ \<Rightarrow> Inr ''{}'')\<rparr>"

definition demo_state :: "(string \<times> go_value) list \<Rightarrow> State" where
  "demo_state doc =
     \<lparr>Debugger = \<lparr>IsOn = False, Printed = []\<rparr>,
      Cache = Map.empty,
      Cache_NotFound = (\<lambda>key. ''not found: '' @ key),
      HttpContext = demo_http,
      TemplateEngine = (\<lambda>t c. Inr t),
      Deserializer =
        \<lparr>Deserialize_BodyHeaders = (\<lambda>b. Inr \<lparr>BH_Body = GoNil, BH_Headers = []\<rparr>),
         Deserialize_Headers = (\<lambda>b. Inr [(''Accept'', b)])\<rparr>,
      JSONPathResolver =
        (\<lambda>expr body. case map_of doc expr of None \<Rightarrow> Inl ''no such node'' | Some v \<Rightarrow> Inr v),
      Heap = (\<lambda>a. demo_request),
      Clock = 0,
      Dispatched = []\<rparr>"

text \<open>A last response, and the state of a scenario that has received it.\<close>

definition demo_response :: Response where
  "demo_response =
     \<lparr>StatusCode = 200,
      Response_Header = [''X-Test'' \<mapsto> [''abc''], ''X-Empty'' \<mapsto> [[]]],
      Response_Body = ''{}''\<rparr>"

definition responded_state :: State where
  "responded_state = (demo_state [])\<lparr>Cache := [''LAST_HTTP_RESPONSE'' \<mapsto> CResponse demo_response]\<rparr>"

text \<open>
  A scenario that has prepared a request under the key \<open>REQ\<close>, at address 0, and has
  already given it two headers and a body.
\<close>

definition prepared_request :: Request where
  "prepared_request =
     \<lparr>Method = ''POST'', URL = ''http://localhost/users'',
      Header = [''Accept'' \<mapsto> [''text/html''], ''X-Trace'' \<mapsto> [''1'']],
      Body = Some ''old body''\<rparr>"

definition prepared_state :: State where
  "prepared_state =
     (demo_state [])\<lparr>Cache := [''REQ'' \<mapsto> CRequest 0], Heap := (\<lambda>a. prepared_request)\<rparr>"

text \<open>A scenario that has prepared a request under the key of the request timestamp.\<close>

definition collision_state :: State where
  "collision_state =
     prepared_state\<lparr>Cache := [''LAST_HTTP_REQUEST_TIMESTAMP'' \<mapsto> CRequest 0]\<rparr>"

text \<open>A scenario whose template engine knows no placeholder.\<close>

definition failing_template_state :: State where
  "failing_template_state = (demo_state [])\<lparr>TemplateEngine := (\<lambda>t c. Inl ''unknown placeholder'')\<rparr>"

text \<open>A transport that answers every request with status 200.\<close>

definition answering_state :: State where
  "answering_state =
     prepared_state\<lparr>HttpContext :=
       demo_http\<lparr>GetHTTPClient_Do :=
         (\<lambda>t r. \<lparr>ReqAfter = r, Elapsed = 5, Result = Inr demo_response\<rparr>)\<rparr>\<rparr>"

text \<open>
  A transport that reads the body of the request it is given and then loses the
  connection: it returns an error and leaves the body's reader at its end.
\<close>

definition consuming_state :: State where
  "consuming_state =
     prepared_state\<lparr>HttpContext :=
       demo_http\<lparr>GetHTTPClient_Do :=
         (\<lambda>t r. \<lparr>ReqAfter = r\<lparr>Body := Some []\<rparr>, Elapsed = 1,
                  Result = Inl ''connection reset''\<rparr>)\<rparr>\<rparr>"

text \<open>A scenario whose deserializer rejects every input.\<close>

definition failing_deserializer_state :: State where
  "failing_deserializer_state =
     (demo_state [])\<lparr>Deserializer :=
       \<lparr>Deserialize_BodyHeaders = (\<lambda>b. Inl ''invalid character''),
        Deserialize_Headers = (\<lambda>b. Inl ''invalid character'')\<rparr>\<rparr>"

section \<open>What the specification says of header merging\<close>

text \<open>
  In the specification's words: headers are merged per entry, the last value given for a
  header name wins, and names that are not mentioned keep their values. Header names are
  compared in their canonical form, and a name that is set has the one value.
\<close>

definition merged_headers :: "Env \<Rightarrow> Header \<Rightarrow> (string \<times> string) list \<Rightarrow> Header" where
  "merged_headers env h entries =
     (\<lambda>name.
        case map_of (rev (map (\<lambda>(k, v). (CanonicalMIMEHeaderKey env k, v)) entries)) name of
          None \<Rightarrow> h name
        | Some v \<Rightarrow> Some [v])"

section \<open>Properties\<close>

lemmas demo_defs = demo_env_def demo_state_def demo_http_def demo_request_def demo_response_def
  responded_state_def prepared_request_def prepared_state_def collision_state_def failing_template_state_def
  answering_state_def consuming_state_def failing_deserializer_state_def

lemma demo_body:
  "GetLastResponseBody (HttpContext (demo_state doc)) (Cache (demo_state doc)) = Inr ''{}''"
  by (simp add: demo_defs)

lemma demo_resolve: "JSONPathResolver (demo_state [(k, v)]) k body = Inr v"
  by (simp add: demo_defs)

lemma demo_template: "TemplateEngine (demo_state doc) t c = Inr t"
  by (simp add: demo_defs)

subsection \<open>The type of a JSON node\<close>

text \<open>
  C1. For each of the seven supported type tags, TheJSONNodeShouldBe succeeds (returns
  nil) exactly when TheJSONNodeShouldNotBe fails, on the same state and expression: one
  of the two succeeds and the other does not. TheJSONNodeShouldBe is computed from the
  result of TheJSONNodeShouldNotBe, so this holds for every expression, in particular
  for those that resolve to a value in the last response body.
\<close>

theorem TheJSONNodeShouldBe_iff_ShouldNotBe_fails:
  "goType \<in> set [''nil'', ''string'', ''int'', ''float'', ''bool'', ''map'', ''slice''] \<Longrightarrow>
   (TheJSONNodeShouldBe env s expr goType = None)
     = (TheJSONNodeShouldNotBe env s expr goType \<noteq> None)"
  by (simp add: TheJSONNodeShouldBe_def)

theorem TheJSONNodeShouldBe_iff_ShouldNotBe_fails_witness:
  "''int'' \<in> set [''nil'', ''string'', ''int'', ''float'', ''bool'', ''map'', ''slice'']
   \<and> TheJSONNodeShouldBe demo_env (demo_state [(''a'', GoFloat64 (Finite 5))]) ''a'' ''int'' = None
   \<and> TheJSONNodeShouldNotBe demo_env (demo_state [(''a'', GoFloat64 (Finite 5))]) ''a'' ''int''
       \<noteq> None"
proof -
  have n: "TheJSONNodeShouldNotBe demo_env (demo_state [(''a'', GoFloat64 (Finite 5))]) ''a'' ''int''
             \<noteq> None"
    by (simp add: TheJSONNodeShouldNotBe_def demo_defs trunc_rat_def)
  have t: "''int'' \<in> set [''nil'', ''string'', ''int'', ''float'', ''bool'', ''map'', ''slice'']"
    by simp
  from TheJSONNodeShouldBe_iff_ShouldNotBe_fails [OF t] n t show ?thesis by blast
qed

text \<open>
  The fractional part that \<^verbatim>\<open>math.Modf\<close> returns for a finite float compares equal to
  zero exactly when the float is a whole number.
\<close>

lemma Modf_frac_zero_iff:
  "float64_eq (snd (math_Modf (Finite r))) (Finite 0) \<longleftrightarrow> r \<in> \<int>"
  by (auto simp: trunc_rat_def Ints_def)

lemma ShouldNotBe_float64:
  assumes "GetLastResponseBody (HttpContext s) (Cache s) = Inr body"
    and "JSONPathResolver s expr body = Inr (GoFloat64 f)"
  shows "TheJSONNodeShouldNotBe env s expr ''int'' =
           (if float64_eq (snd (math_Modf f)) (Finite 0)
            then Some (Errorf ErrGdutils (MsgValueIs expr ''int'')) else None)"
    and "TheJSONNodeShouldNotBe env s expr ''float'' =
           (if float64_eq (snd (math_Modf f)) (Finite 0)
            then None else Some (Errorf ErrGdutils (MsgValueIs expr ''float'')))"
  using assms by (simp_all add: TheJSONNodeShouldNotBe_def)

text \<open>
  C2. Let the expression resolve, in the last response body, to a float64 \<open>f\<close>. If the
  fractional part of \<open>f\<close> (as \<^verbatim>\<open>math.Modf\<close> gives it) is zero, then
  TheJSONNodeShouldBe succeeds for "int" and fails for "float"; if it is not zero, then
  TheJSONNodeShouldBe succeeds for "float" and fails for "int".
\<close>

theorem float64_node_is_int_or_float:
  assumes "GetLastResponseBody (HttpContext s) (Cache s) = Inr body"
    and "JSONPathResolver s expr body = Inr (GoFloat64 f)"
  shows "(float64_eq (snd (math_Modf f)) (Finite 0) \<longrightarrow>
            TheJSONNodeShouldBe env s expr ''int'' = None
          \<and> TheJSONNodeShouldBe env s expr ''float'' \<noteq> None)
       \<and> (\<not> float64_eq (snd (math_Modf f)) (Finite 0) \<longrightarrow>
            TheJSONNodeShouldBe env s expr ''float'' = None
          \<and> TheJSONNodeShouldBe env s expr ''int'' \<noteq> None)"
  using ShouldNotBe_float64 [OF assms, of env]
  by (simp add: TheJSONNodeShouldBe_def)

theorem float64_node_is_int_or_float_witness:
  "float64_eq (snd (math_Modf (Finite 5))) (Finite 0)
   \<and> TheJSONNodeShouldBe demo_env (demo_state [(''n'', GoFloat64 (Finite 5))]) ''n'' ''int'' = None
   \<and> TheJSONNodeShouldBe demo_env (demo_state [(''n'', GoFloat64 (Finite 5))]) ''n'' ''float''
       \<noteq> None
   \<and> \<not> float64_eq (snd (math_Modf (Finite (11 / 2)))) (Finite 0)
   \<and> TheJSONNodeShouldBe demo_env (demo_state [(''n'', GoFloat64 (Finite (11 / 2)))]) ''n'' ''float''
       = None
   \<and> TheJSONNodeShouldBe demo_env (demo_state [(''n'', GoFloat64 (Finite (11 / 2)))]) ''n'' ''int''
       \<noteq> None"
proof -
  have a: "float64_eq (snd (math_Modf (Finite 5))) (Finite 0)"
    by (simp add: trunc_rat_def)
  have b: "\<not> float64_eq (snd (math_Modf (Finite (11 / 2)))) (Finite 0)"
    by code_simp
  have r1: "JSONPathResolver (demo_state [(''n'', GoFloat64 (Finite 5))]) ''n'' ''{}''
              = Inr (GoFloat64 (Finite 5))"
    by (rule demo_resolve)
  have r2: "JSONPathResolver (demo_state [(''n'', GoFloat64 (Finite (11 / 2)))]) ''n'' ''{}''
              = Inr (GoFloat64 (Finite (11 / 2)))"
    by (rule demo_resolve)
  show ?thesis
    using a b float64_node_is_int_or_float [OF demo_body r1, of demo_env]
      float64_node_is_int_or_float [OF demo_body r2, of demo_env]
    by blast
qed

text \<open>Printing a debug line and saving into the cache leave the other parts of the state alone.\<close>

lemma Debugger_Print_fields [simp]:
  "Cache (Debugger_Print l s) = Cache s"
  "HttpContext (Debugger_Print l s) = HttpContext s"
  "TemplateEngine (Debugger_Print l s) = TemplateEngine s"
  "JSONPathResolver (Debugger_Print l s) = JSONPathResolver s"
  "Deserializer (Debugger_Print l s) = Deserializer s"
  "Heap (Debugger_Print l s) = Heap s"
  "Clock (Debugger_Print l s) = Clock s"
  "Dispatched (Debugger_Print l s) = Dispatched s"
  "IsOn (Debugger (Debugger_Print l s)) = IsOn (Debugger s)"
  by (simp_all add: Debugger_Print_def)


lemma Cache_Save_fields [simp]:
  "Cache (Cache_Save k v s) = (Cache s)(k \<mapsto> v)"
  "HttpContext (Cache_Save k v s) = HttpContext s"
  "TemplateEngine (Cache_Save k v s) = TemplateEngine s"
  "JSONPathResolver (Cache_Save k v s) = JSONPathResolver s"
  "Deserializer (Cache_Save k v s) = Deserializer s"
  "Debugger (Cache_Save k v s) = Debugger s"
  "Heap (Cache_Save k v s) = Heap s"
  "Clock (Cache_Save k v s) = Clock s"
  "Dispatched (Cache_Save k v s) = Dispatched s"
  "Cache_NotFound (Cache_Save k v s) = Cache_NotFound s"
  by (simp_all add: Cache_Save_def)

lemma print_last_response_body_fields [simp]:
  "Cache (print_last_response_body s) = Cache s"
  "Heap (print_last_response_body s) = Heap s"
  "Clock (print_last_response_body s) = Clock s"
  "Dispatched (print_last_response_body s) = Dispatched s"
  by (simp_all add: print_last_response_body_def)

text \<open>The result of TheJSONNodeShouldBeOfValue once the node is resolved.\<close>

lemma OfValue_resolved:
  assumes "TemplateEngine s dataValue (Cache s) = Inr txt"
    and "GetLastResponseBody (HttpContext s) (Cache s) = Inr body"
    and "JSONPathResolver s expr body = Inr v"
  shows "fst (TheJSONNodeShouldBeOfValue env s expr dataType dataValue)
           = compare_node_value env expr dataType txt v"
  using assms by (simp add: TheJSONNodeShouldBeOfValue_def Let_def)

text \<open>
  C5 (the code departs from the claim). The switch of TheJSONNodeShouldBeOfValue has no
  default case: for a data type other than "string", "int", "float" and "bool" the step
  returns nil whenever the expected value is substituted and the node is resolved,
  whatever the node and the expected value are. The witness runs the step with the tag
  "integer" on a node of value 7 and the expected value "8"; on the same state and tag
  TheJSONNodeShouldBe and TheJSONNodeShouldNotBe return the unknown-type error.
\<close>

theorem TheJSONNodeShouldBeOfValue_accepts_unknown_tag:
  assumes "dataType \<notin> set [''string'', ''int'', ''float'', ''bool'']"
    and "TemplateEngine s dataValue (Cache s) = Inr txt"
    and "GetLastResponseBody (HttpContext s) (Cache s) = Inr body"
    and "JSONPathResolver s expr body = Inr v"
  shows "fst (TheJSONNodeShouldBeOfValue env s expr dataType dataValue) = None"
  using assms(1) by (simp add: OfValue_resolved [OF assms(2-4)] compare_node_value_def)

theorem TheJSONNodeShouldBeOfValue_accepts_unknown_tag_witness:
  "''integer'' \<notin> set [''string'', ''int'', ''float'', ''bool'']
   \<and> fst (TheJSONNodeShouldBeOfValue demo_env (demo_state [(''id'', GoFloat64 (Finite 7))])
           ''id'' ''integer'' ''8'')
     = None
   \<and> TheJSONNodeShouldBe demo_env (demo_state [(''id'', GoFloat64 (Finite 7))]) ''id'' ''integer''
     = Some (Errorf ErrGdutils (MsgUnknownType ''integer''))
   \<and> TheJSONNodeShouldNotBe demo_env (demo_state [(''id'', GoFloat64 (Finite 7))]) ''id'' ''integer''
     = Some (Errorf ErrGdutils (MsgUnknownType ''integer''))"
proof -
  have t: "''integer'' \<notin> set [''string'', ''int'', ''float'', ''bool'']"
    by simp
  have r: "JSONPathResolver (demo_state [(''id'', GoFloat64 (Finite 7))]) ''id'' ''{}''
             = Inr (GoFloat64 (Finite 7))"
    by (rule demo_resolve)
  have b: "TheJSONNodeShouldBe demo_env (demo_state [(''id'', GoFloat64 (Finite 7))]) ''id'' ''integer''
             = Some (Errorf ErrGdutils (MsgUnknownType ''integer''))"
    by (simp add: TheJSONNodeShouldBe_def)
  have n: "TheJSONNodeShouldNotBe demo_env (demo_state [(''id'', GoFloat64 (Finite 7))]) ''id'' ''integer''
             = Some (Errorf ErrGdutils (MsgUnknownType ''integer''))"
    by (simp add: TheJSONNodeShouldNotBe_def demo_body r)
  from t b n TheJSONNodeShouldBeOfValue_accepts_unknown_tag [OF t demo_template demo_body r, of demo_env]
  show ?thesis by (intro conjI)
qed

subsection \<open>The length of a slice\<close>

text \<open>
  C6, as amended. Let the expression resolve to a value \<open>v\<close>. Then
  TheJSONNodeShouldBeSliceOfLength succeeds exactly when \<open>v\<close> is a slice of length \<open>n\<close>;
  a slice of another length fails with the slice-length message, and a value that is not
  a slice fails with the not-a-slice message. The two messages differ, and both errors
  wrap the same sentinel, ErrGdutils.
\<close>

theorem TheJSONNodeShouldBeSliceOfLength_outcomes:
  assumes "GetLastResponseBody (HttpContext s) (Cache s) = Inr body"
    and "JSONPathResolver s expr body = Inr v"
  shows "(fst (TheJSONNodeShouldBeSliceOfLength s expr n) = None
            \<longleftrightarrow> (\<exists>xs. v = GoSlice xs \<and> int (length xs) = n))
       \<and> (\<forall>xs. v = GoSlice xs \<and> int (length xs) \<noteq> n \<longrightarrow>
             fst (TheJSONNodeShouldBeSliceOfLength s expr n)
               = Some (Errorf ErrGdutils (MsgSliceLength expr (int (length xs)) n)))
       \<and> (Kind_of v \<noteq> reflect_Slice \<longrightarrow>
             fst (TheJSONNodeShouldBeSliceOfLength s expr n)
               = Some (Errorf ErrGdutils (MsgNotSlice expr)))"
  using assms by (cases v) (auto simp add: TheJSONNodeShouldBeSliceOfLength_def)

theorem TheJSONNodeShouldBeSliceOfLength_outcomes_witness:
  "fst (TheJSONNodeShouldBeSliceOfLength (demo_state [(''xs'', GoSlice [GoNil, GoBool True, GoNil])]) ''xs'' 3) = None
   \<and> fst (TheJSONNodeShouldBeSliceOfLength (demo_state [(''xs'', GoSlice [GoNil, GoBool True, GoNil])]) ''xs'' 2)
       = Some (Errorf ErrGdutils (MsgSliceLength ''xs'' 3 2))
   \<and> fst (TheJSONNodeShouldBeSliceOfLength (demo_state [(''xs'', GoString ''abc'')]) ''xs'' 3)
       = Some (Errorf ErrGdutils (MsgNotSlice ''xs''))"
proof -
  have r1: "JSONPathResolver (demo_state [(''xs'', GoSlice [GoNil, GoBool True, GoNil])]) ''xs'' ''{}''
             = Inr (GoSlice [GoNil, GoBool True, GoNil])"
    by (rule demo_resolve)
  have r2: "JSONPathResolver (demo_state [(''xs'', GoString ''abc'')]) ''xs'' ''{}''
             = Inr (GoString ''abc'')"
    by (rule demo_resolve)
  show ?thesis
    using TheJSONNodeShouldBeSliceOfLength_outcomes [OF demo_body r1, of 3] TheJSONNodeShouldBeSliceOfLength_outcomes [OF demo_body r1, of 2] TheJSONNodeShouldBeSliceOfLength_outcomes [OF demo_body r2, of 3]
    by simp
qed

text \<open>
  C6 as stated asks for an error of a different kind for a value that is not a slice.
  For a string node and for a slice of the wrong length the two errors wrap the same
  sentinel.
\<close>

theorem slice_errors_wrap_same_sentinel:
  "fst (TheJSONNodeShouldBeSliceOfLength (demo_state [(''xs'', GoString ''abc'')]) ''xs'' 3)
     = Some (Errorf ErrGdutils (MsgNotSlice ''xs''))
   \<and> fst (TheJSONNodeShouldBeSliceOfLength (demo_state [(''xs'', GoSlice [GoNil])]) ''xs'' 3)
     = Some (Errorf ErrGdutils (MsgSliceLength ''xs'' 1 3))
   \<and> wrapped (Errorf ErrGdutils (MsgNotSlice ''xs''))
     = wrapped (Errorf ErrGdutils (MsgSliceLength ''xs'' 1 3))"
  by (simp add: TheJSONNodeShouldBeSliceOfLength_def demo_defs print_last_response_body_def)


subsection \<open>The value of a JSON node\<close>



subsection \<open>The value of a response header\<close>

lemma header_value_check_resolved:
  assumes "GetLastResponse (HttpContext s) (Cache s) = Inr resp"
    and "TemplateEngine s valueTemplate (Cache s) = Inr v"
  shows "fst (TheResponseShouldHaveHeaderOfValue env s name valueTemplate)
           = Returned
               (if Header_Get env (Response_Header resp) name = [] \<and> v = []
                then Some (Errorf ErrHTTPReqRes (MsgCouldNotFindHeader name))
                else if Header_Get env (Response_Header resp) name = v then None
                else Some (Errorf ErrHTTPReqRes
                             (MsgHeaderValue name v (Header_Get env (Response_Header resp) name))))"
  using assms
  by (simp add: TheResponseShouldHaveHeaderOfValue_def header_value_check_def
      print_last_response_headers_def Let_def split: prod.splits)

lemma responded_last: "GetLastResponse (HttpContext responded_state) (Cache responded_state) = Inr demo_response"
  by (simp add: demo_defs)

lemma responded_template: "TemplateEngine responded_state t (Cache responded_state) = Inr t"
  by (simp add: demo_defs)

text \<open>
  C7. Let there be a last response, and let the template of the expected value be
  substituted to \<open>v\<close>. If the header's value and \<open>v\<close> are both empty, the step fails with
  the error that names the header as not found; if the header's value is not empty and
  \<open>v\<close> is, it fails; it succeeds exactly when the header's value equals \<open>v\<close> and \<open>v\<close> is
  not empty. A header that is absent and one that is present with the empty value give
  the same value and the same outcome.
\<close>

theorem TheResponseShouldHaveHeaderOfValue_outcomes:
  assumes "GetLastResponse (HttpContext s) (Cache s) = Inr resp"
    and "TemplateEngine s valueTemplate (Cache s) = Inr v"
  shows "(Header_Get env (Response_Header resp) name = [] \<and> v = [] \<longrightarrow>
            fst (TheResponseShouldHaveHeaderOfValue env s name valueTemplate)
              = Returned (Some (Errorf ErrHTTPReqRes (MsgCouldNotFindHeader name))))
       \<and> (Header_Get env (Response_Header resp) name \<noteq> [] \<and> v = [] \<longrightarrow>
            fst (TheResponseShouldHaveHeaderOfValue env s name valueTemplate)
              = Returned (Some (Errorf ErrHTTPReqRes
                  (MsgHeaderValue name [] (Header_Get env (Response_Header resp) name)))))
       \<and> (fst (TheResponseShouldHaveHeaderOfValue env s name valueTemplate) = Returned None
            \<longleftrightarrow> Header_Get env (Response_Header resp) name = v \<and> v \<noteq> [])
       \<and> (Response_Header resp (CanonicalMIMEHeaderKey env name) = None
            \<or> Response_Header resp (CanonicalMIMEHeaderKey env name) = Some [[]] \<longrightarrow>
            Header_Get env (Response_Header resp) name = []
          \<and> fst (TheResponseShouldHaveHeaderOfValue env s name valueTemplate)
              = Returned (Some (Errorf ErrHTTPReqRes
                  (if v = [] then MsgCouldNotFindHeader name else MsgHeaderValue name v []))))"
proof -
  note r = header_value_check_resolved [OF assms, of env name]
  have e1: "Response_Header resp (CanonicalMIMEHeaderKey env name) = None
             \<Longrightarrow> Header_Get env (Response_Header resp) name = []"
    by (simp add: Header_Get_def)
  have e2: "Response_Header resp (CanonicalMIMEHeaderKey env name) = Some [[]]
             \<Longrightarrow> Header_Get env (Response_Header resp) name = []"
    by (simp add: Header_Get_def)
  have c1: "Header_Get env (Response_Header resp) name = [] \<and> v = [] \<longrightarrow>
            fst (TheResponseShouldHaveHeaderOfValue env s name valueTemplate)
              = Returned (Some (Errorf ErrHTTPReqRes (MsgCouldNotFindHeader name)))"
    unfolding r by simp
  have c2: "Header_Get env (Response_Header resp) name \<noteq> [] \<and> v = [] \<longrightarrow>
            fst (TheResponseShouldHaveHeaderOfValue env s name valueTemplate)
              = Returned (Some (Errorf ErrHTTPReqRes
                  (MsgHeaderValue name [] (Header_Get env (Response_Header resp) name))))"
    unfolding r by simp
  have c3: "fst (TheResponseShouldHaveHeaderOfValue env s name valueTemplate) = Returned None
            \<longleftrightarrow> Header_Get env (Response_Header resp) name = v \<and> v \<noteq> []"
    unfolding r by auto
  have c4: "Response_Header resp (CanonicalMIMEHeaderKey env name) = None
            \<or> Response_Header resp (CanonicalMIMEHeaderKey env name) = Some [[]] \<longrightarrow>
            Header_Get env (Response_Header resp) name = []
          \<and> fst (TheResponseShouldHaveHeaderOfValue env s name valueTemplate)
              = Returned (Some (Errorf ErrHTTPReqRes
                  (if v = [] then MsgCouldNotFindHeader name else MsgHeaderValue name v [])))"
  proof
    assume "Response_Header resp (CanonicalMIMEHeaderKey env name) = None
            \<or> Response_Header resp (CanonicalMIMEHeaderKey env name) = Some [[]]"
    then have h0: "Header_Get env (Response_Header resp) name = []"
      using e1 e2 by blast
    show "Header_Get env (Response_Header resp) name = []
          \<and> fst (TheResponseShouldHaveHeaderOfValue env s name valueTemplate)
              = Returned (Some (Errorf ErrHTTPReqRes
                  (if v = [] then MsgCouldNotFindHeader name else MsgHeaderValue name v [])))"
      unfolding r h0 by auto
  qed
  show ?thesis
    using c1 c2 c3 c4 by (intro conjI)
qed

theorem TheResponseShouldHaveHeaderOfValue_outcomes_witness:
  "fst (TheResponseShouldHaveHeaderOfValue demo_env responded_state ''X-Test'' ''abc'') = Returned None
   \<and> fst (TheResponseShouldHaveHeaderOfValue demo_env responded_state ''X-Test'' [])
       = Returned (Some (Errorf ErrHTTPReqRes (MsgHeaderValue ''X-Test'' [] ''abc'')))
   \<and> fst (TheResponseShouldHaveHeaderOfValue demo_env responded_state ''X-Empty'' [])
       = Returned (Some (Errorf ErrHTTPReqRes (MsgCouldNotFindHeader ''X-Empty'')))
   \<and> fst (TheResponseShouldHaveHeaderOfValue demo_env responded_state ''X-Absent'' [])
       = Returned (Some (Errorf ErrHTTPReqRes (MsgCouldNotFindHeader ''X-Absent'')))"
proof -
  have h: "Header_Get demo_env (Response_Header demo_response) ''X-Test'' = ''abc''"
    "Header_Get demo_env (Response_Header demo_response) ''X-Empty'' = []"
    "Header_Get demo_env (Response_Header demo_response) ''X-Absent'' = []"
    by (simp_all add: Header_Get_def demo_defs)
  show ?thesis
    using h TheResponseShouldHaveHeaderOfValue_outcomes [OF responded_last responded_template, of demo_env "''X-Test''" "''abc''"]
      TheResponseShouldHaveHeaderOfValue_outcomes [OF responded_last responded_template, of demo_env "''X-Test''" "[]"]
      TheResponseShouldHaveHeaderOfValue_outcomes [OF responded_last responded_template, of demo_env "''X-Empty''" "[]"]
      TheResponseShouldHaveHeaderOfValue_outcomes [OF responded_last responded_template, of demo_env "''X-Absent''" "[]"]
    by simp
qed

section \<open>Properties of the prepared request\<close>

text \<open>The loop over the given headers computes the merge of the specification.\<close>

lemma set_headers_merged: "set_headers env h entries = merged_headers env h entries"
proof (induction entries arbitrary: h)
  case Nil
  show ?case by (simp add: merged_headers_def)
next
  case (Cons e entries)
  obtain k v where e: "e = (k, v)" by (cases e)
  show ?case
    unfolding e
    by (auto simp add: Cons.IH merged_headers_def Header_Set_def map_add_def fun_eq_iff
        split: option.splits)
qed

lemma getPreparedRequest_Inr:
  "getPreparedRequest s cacheKey = Inr req \<longleftrightarrow> Cache s cacheKey = Some (CRequest req)"
  by (auto simp add: getPreparedRequest_def Cache_GetSaved_def split: option.splits cache_value.splits)

lemma Cache_Save_same:
  "Cache s k = Some v \<Longrightarrow> Cache_Save k v s = s"
  by (simp add: Cache_Save_def fun_upd_idem)

lemma ISetFollowingBody_ok:
  assumes "getPreparedRequest s cacheKey = Inr req"
    and "TemplateEngine s bodyTemplate (Cache s) = Inr body"
  shows "ISetFollowingBodyForPreparedRequest s cacheKey bodyTemplate
           = (None, s\<lparr>Heap := (Heap s)(req := (Heap s req)\<lparr>Body := Some body\<rparr>)\<rparr>)"
proof -
  from assms(1) have c: "Cache s cacheKey = Some (CRequest req)"
    by (simp add: getPreparedRequest_Inr)
  show ?thesis
    using assms c
    by (simp add: ISetFollowingBodyForPreparedRequest_def Cache_Save_def fun_upd_idem)
qed

lemma ISetFollowingHeaders_ok:
  assumes "getPreparedRequest s cacheKey = Inr req"
    and "TemplateEngine s headersTemplate (Cache s) = Inr headers"
    and "Deserialize_Headers (Deserializer s) headers = Inr headersMap"
  shows "ISetFollowingHeadersForPreparedRequest env s cacheKey headersTemplate
           = (None, s\<lparr>Heap := (Heap s)(req := (Heap s req)
                \<lparr>Header := merged_headers env (Header (Heap s req)) headersMap\<rparr>)\<rparr>)"
proof -
  from assms(1) have c: "Cache s cacheKey = Some (CRequest req)"
    by (simp add: getPreparedRequest_Inr)
  show ?thesis
    using assms c
    by (simp add: ISetFollowingHeadersForPreparedRequest_def Cache_Save_def fun_upd_idem
        set_headers_merged Let_def)
qed

text \<open>
  What the merge says: a name that no given entry has (in canonical form) keeps its
  values, and an entry that no later entry overrides gives its name the one value.
\<close>

lemma merged_headers_unmentioned:
  assumes "name \<notin> CanonicalMIMEHeaderKey env ` fst ` set entries"
  shows "merged_headers env h entries name = h name"
proof -
  have "name \<notin> fst ` set (rev (map (\<lambda>(k, v). (CanonicalMIMEHeaderKey env k, v)) entries))"
    using assms by (force simp add: image_iff)
  then have "map_of (rev (map (\<lambda>(k, v). (CanonicalMIMEHeaderKey env k, v)) entries)) name = None"
    by (simp add: map_of_eq_None_iff)
  then show ?thesis by (simp add: merged_headers_def)
qed

lemma merged_headers_last_wins:
  assumes "CanonicalMIMEHeaderKey env k \<notin> CanonicalMIMEHeaderKey env ` fst ` set later"
  shows "merged_headers env h (earlier @ [(k, v)] @ later) (CanonicalMIMEHeaderKey env k) = Some [v]"
proof -
  have "CanonicalMIMEHeaderKey env k
          \<notin> fst ` set (rev (map (\<lambda>(k, v). (CanonicalMIMEHeaderKey env k, v)) later))"
    using assms by (force simp add: image_iff)
  then have "map_of (rev (map (\<lambda>(k, v). (CanonicalMIMEHeaderKey env k, v)) later))
               (CanonicalMIMEHeaderKey env k) = None"
    by (simp add: map_of_eq_None_iff)
  then show ?thesis
    by (simp add: merged_headers_def map_add_def)
qed

text \<open>
  C8. Let the cache hold a reference to a request object under the key.
  ISetFollowingBodyForPreparedRequest, when the template of the body is substituted to
  \<open>body\<close>, succeeds and leaves the object with exactly \<open>body\<close> as its body, whatever the
  body was, and with its method, URL and headers as they were.
  ISetFollowingHeadersForPreparedRequest, when its template is substituted and
  deserialized to a list of entries, succeeds and leaves the object with the merged
  headers (each given name set to its value, the last one given winning, other names
  kept) and with its method, URL and body as they were. Neither touches another request
  object nor the content of the cache.
\<close>

theorem set_body_replaces_set_headers_merge:
  assumes "getPreparedRequest s cacheKey = Inr req"
  shows "(\<forall>body. TemplateEngine s bodyTemplate (Cache s) = Inr body \<longrightarrow>
            fst (ISetFollowingBodyForPreparedRequest s cacheKey bodyTemplate) = None
          \<and> Heap (snd (ISetFollowingBodyForPreparedRequest s cacheKey bodyTemplate)) req
              = (Heap s req)\<lparr>Body := Some body\<rparr>
          \<and> (\<forall>a. a \<noteq> req \<longrightarrow>
                Heap (snd (ISetFollowingBodyForPreparedRequest s cacheKey bodyTemplate)) a = Heap s a)
          \<and> Cache (snd (ISetFollowingBodyForPreparedRequest s cacheKey bodyTemplate)) = Cache s)
       \<and> (\<forall>headers headersMap.
            TemplateEngine s headersTemplate (Cache s) = Inr headers
            \<and> Deserialize_Headers (Deserializer s) headers = Inr headersMap \<longrightarrow>
            fst (ISetFollowingHeadersForPreparedRequest env s cacheKey headersTemplate) = None
          \<and> Heap (snd (ISetFollowingHeadersForPreparedRequest env s cacheKey headersTemplate)) req
              = (Heap s req)\<lparr>Header := merged_headers env (Header (Heap s req)) headersMap\<rparr>
          \<and> (\<forall>name. name \<notin> CanonicalMIMEHeaderKey env ` fst ` set headersMap \<longrightarrow>
                Header (Heap (snd (ISetFollowingHeadersForPreparedRequest env s cacheKey
                  headersTemplate)) req) name
                  = Header (Heap s req) name)
          \<and> (\<forall>earlier k v later.
                headersMap = earlier @ [(k, v)] @ later
                \<and> CanonicalMIMEHeaderKey env k \<notin> CanonicalMIMEHeaderKey env ` fst ` set later \<longrightarrow>
                Header (Heap (snd (ISetFollowingHeadersForPreparedRequest env s cacheKey
                  headersTemplate)) req) (CanonicalMIMEHeaderKey env k)
                  = Some [v])
          \<and> (\<forall>a. a \<noteq> req \<longrightarrow>
                Heap (snd (ISetFollowingHeadersForPreparedRequest env s cacheKey headersTemplate)) a
                  = Heap s a)
          \<and> Cache (snd (ISetFollowingHeadersForPreparedRequest env s cacheKey headersTemplate))
              = Cache s)"
proof (intro conjI allI impI)
  fix body
  assume "TemplateEngine s bodyTemplate (Cache s) = Inr body"
  note b = ISetFollowingBody_ok [OF assms this]
  show "fst (ISetFollowingBodyForPreparedRequest s cacheKey bodyTemplate) = None"
    by (simp add: b)
  show "Heap (snd (ISetFollowingBodyForPreparedRequest s cacheKey bodyTemplate)) req
          = (Heap s req)\<lparr>Body := Some body\<rparr>"
    by (simp add: b)
  show "Cache (snd (ISetFollowingBodyForPreparedRequest s cacheKey bodyTemplate)) = Cache s"
    by (simp add: b)
  show "Heap (snd (ISetFollowingBodyForPreparedRequest s cacheKey bodyTemplate)) a = Heap s a"
    if "a \<noteq> req" for a
    using that by (simp add: b)
next
  fix headers headersMap
  assume "TemplateEngine s headersTemplate (Cache s) = Inr headers
          \<and> Deserialize_Headers (Deserializer s) headers = Inr headersMap"
  then have t: "TemplateEngine s headersTemplate (Cache s) = Inr headers"
    and d: "Deserialize_Headers (Deserializer s) headers = Inr headersMap"
    by blast+
  note h = ISetFollowingHeaders_ok [OF assms t d, of env]
  show "fst (ISetFollowingHeadersForPreparedRequest env s cacheKey headersTemplate) = None"
    by (simp add: h)
  show "Heap (snd (ISetFollowingHeadersForPreparedRequest env s cacheKey headersTemplate)) req
          = (Heap s req)\<lparr>Header := merged_headers env (Header (Heap s req)) headersMap\<rparr>"
    by (simp add: h)
  show "Cache (snd (ISetFollowingHeadersForPreparedRequest env s cacheKey headersTemplate))
          = Cache s"
    by (simp add: h)
  show "Heap (snd (ISetFollowingHeadersForPreparedRequest env s cacheKey headersTemplate)) a
          = Heap s a"
    if "a \<noteq> req" for a
    using that by (simp add: h)
  show "Header (Heap (snd (ISetFollowingHeadersForPreparedRequest env s cacheKey
          headersTemplate)) req) name
          = Header (Heap s req) name"
    if "name \<notin> CanonicalMIMEHeaderKey env ` fst ` set headersMap" for name
    using that by (simp add: h merged_headers_unmentioned)
  show "Header (Heap (snd (ISetFollowingHeadersForPreparedRequest env s cacheKey
          headersTemplate)) req) (CanonicalMIMEHeaderKey env k)
          = Some [v]"
    if "headersMap = earlier @ [(k, v)] @ later
        \<and> CanonicalMIMEHeaderKey env k \<notin> CanonicalMIMEHeaderKey env ` fst ` set later"
    for earlier k v later
    using that merged_headers_last_wins [of env k later "Header (Heap s req)" earlier v]
    by (simp add: h)
qed

theorem set_body_replaces_set_headers_merge_witness:
  "getPreparedRequest prepared_state ''REQ'' = Inr 0
   \<and> Heap prepared_state 0 = prepared_request
   \<and> fst (ISetFollowingBodyForPreparedRequest prepared_state ''REQ'' ''new body'') = None
   \<and> Heap (snd (ISetFollowingBodyForPreparedRequest prepared_state ''REQ'' ''new body'')) 0
       = prepared_request\<lparr>Body := Some ''new body''\<rparr>
   \<and> fst (ISetFollowingHeadersForPreparedRequest demo_env prepared_state ''REQ'' ''text/plain'') = None
   \<and> Heap (snd (ISetFollowingHeadersForPreparedRequest demo_env prepared_state ''REQ'' ''text/plain'')) 0
       = prepared_request\<lparr>Header := [''Accept'' \<mapsto> [''text/plain''], ''X-Trace'' \<mapsto> [''1'']]\<rparr>"
proof -
  have g: "getPreparedRequest prepared_state ''REQ'' = Inr 0"
    by (simp add: getPreparedRequest_def Cache_GetSaved_def demo_defs)
  have t: "TemplateEngine prepared_state x (Cache prepared_state) = Inr x" for x
    by (simp add: demo_defs)
  have d: "Deserialize_Headers (Deserializer prepared_state) x = Inr [(''Accept'', x)]" for x
    by (simp add: demo_defs)
  have h: "Heap prepared_state 0 = prepared_request"
    by (simp add: demo_defs)
  have m: "merged_headers demo_env (Header prepared_request) [(''Accept'', ''text/plain'')]
             = [''Accept'' \<mapsto> [''text/plain''], ''X-Trace'' \<mapsto> [''1'']]"
    by (auto simp add: merged_headers_def demo_defs fun_eq_iff)
  from set_body_replaces_set_headers_merge [OF g, of "''new body''" "''text/plain''" demo_env]
  have "fst (ISetFollowingBodyForPreparedRequest prepared_state ''REQ'' ''new body'') = None
     \<and> Heap (snd (ISetFollowingBodyForPreparedRequest prepared_state ''REQ'' ''new body'')) 0
       = (Heap prepared_state 0)\<lparr>Body := Some ''new body''\<rparr>
     \<and> fst (ISetFollowingHeadersForPreparedRequest demo_env prepared_state ''REQ'' ''text/plain'') = None
     \<and> Heap (snd (ISetFollowingHeadersForPreparedRequest demo_env prepared_state ''REQ'' ''text/plain'')) 0
       = (Heap prepared_state 0)\<lparr>Header := merged_headers demo_env (Header (Heap prepared_state 0)) [(''Accept'', ''text/plain'')]\<rparr>"
    using t d by simp
  then show ?thesis
    using g by (simp add: h m)
qed

text \<open>What the lookup of the prepared request returns when it fails.\<close>

lemma getPreparedRequest_absent:
  "Cache s cacheKey = None \<Longrightarrow>
   getPreparedRequest s cacheKey = Inl (Errorf ErrGdutils (MsgCause (Cache_NotFound s cacheKey)))"
  by (simp add: getPreparedRequest_def Cache_GetSaved_def)

lemma getPreparedRequest_not_a_request:
  "Cache s cacheKey = Some v \<Longrightarrow> (\<forall>a. v \<noteq> CRequest a) \<Longrightarrow>
   getPreparedRequest s cacheKey = Inl (Errorf ErrPreservedData (MsgNotARequest cacheKey))"
  by (cases v) (simp_all add: getPreparedRequest_def Cache_GetSaved_def)

lemma lookup_failure_steps:
  assumes "getPreparedRequest s cacheKey = Inl e"
  shows "ISendRequest env s cacheKey = (Some e, s)"
    and "snd (ISetFollowingBodyForPreparedRequest s cacheKey bodyTemplate) = s"
    and "fst (ISetFollowingBodyForPreparedRequest s cacheKey bodyTemplate) \<noteq> None"
    and "TemplateEngine s bodyTemplate (Cache s) = Inr body \<Longrightarrow>
           fst (ISetFollowingBodyForPreparedRequest s cacheKey bodyTemplate) = Some e"
    and "snd (ISetFollowingHeadersForPreparedRequest env s cacheKey headersTemplate) = s"
    and "fst (ISetFollowingHeadersForPreparedRequest env s cacheKey headersTemplate) \<noteq> None"
    and "TemplateEngine s headersTemplate (Cache s) = Inr headers \<Longrightarrow>
         Deserialize_Headers (Deserializer s) headers = Inr headersMap \<Longrightarrow>
           fst (ISetFollowingHeadersForPreparedRequest env s cacheKey headersTemplate) = Some e"
  using assms
  by (simp_all add: ISendRequest_def ISetFollowingBodyForPreparedRequest_def
      ISetFollowingHeadersForPreparedRequest_def split: sum.splits)

lemma ISetFollowingBody_template_error:
  "TemplateEngine s bodyTemplate (Cache s) = Inl err \<Longrightarrow>
   ISetFollowingBodyForPreparedRequest s cacheKey bodyTemplate = (Some (Foreign err), s)"
  by (simp add: ISetFollowingBodyForPreparedRequest_def)

lemma ISetFollowingHeaders_template_error:
  "TemplateEngine s headersTemplate (Cache s) = Inl err \<Longrightarrow>
   ISetFollowingHeadersForPreparedRequest env s cacheKey headersTemplate = (Some (Foreign err), s)"
  by (simp add: ISetFollowingHeadersForPreparedRequest_def)

lemma ISetFollowingHeaders_deserialize_error:
  "TemplateEngine s headersTemplate (Cache s) = Inr headers \<Longrightarrow>
   Deserialize_Headers (Deserializer s) headers = Inl err \<Longrightarrow>
   ISetFollowingHeadersForPreparedRequest env s cacheKey headersTemplate
     = (Some (Errorf ErrGdutils (MsgCouldNotParseHeaders headers err)), s)"
  by (simp add: ISetFollowingHeadersForPreparedRequest_def)

text \<open>
  C9, as amended. Let the key be absent from the cache, or hold a value that is not a
  request. Then the lookup fails, with the cache-miss error wrapped in ErrGdutils in the
  first case and with the ErrPreservedData error in the second. ISendRequest returns that
  error and leaves the state as it was: nothing is dispatched, written or changed.
  ISetFollowingBodyForPreparedRequest and ISetFollowingHeadersForPreparedRequest return
  an error and leave the state as it was. Their error is that of the lookup whenever the
  steps before the lookup succeed (the substitution of the template and, for the headers,
  the deserialization), and otherwise the error of the step that fails: the error of the
  template engine as it is, or the could-not-parse-headers error wrapped in ErrGdutils.
\<close>

theorem prepared_request_lookup_failure:
  assumes "Cache s cacheKey = None \<or> (\<exists>v. Cache s cacheKey = Some v \<and> (\<forall>a. v \<noteq> CRequest a))"
  shows "\<exists>e. e = (if Cache s cacheKey = None
                then Errorf ErrGdutils (MsgCause (Cache_NotFound s cacheKey))
                else Errorf ErrPreservedData (MsgNotARequest cacheKey))
          \<and> getPreparedRequest s cacheKey = Inl e
          \<and> ISendRequest env s cacheKey = (Some e, s)
          \<and> snd (ISetFollowingBodyForPreparedRequest s cacheKey bodyTemplate) = s
          \<and> fst (ISetFollowingBodyForPreparedRequest s cacheKey bodyTemplate) \<noteq> None
          \<and> (\<forall>body. TemplateEngine s bodyTemplate (Cache s) = Inr body \<longrightarrow>
                fst (ISetFollowingBodyForPreparedRequest s cacheKey bodyTemplate) = Some e)
          \<and> (\<forall>err. TemplateEngine s bodyTemplate (Cache s) = Inl err \<longrightarrow>
                fst (ISetFollowingBodyForPreparedRequest s cacheKey bodyTemplate)
                  = Some (Foreign err))
          \<and> snd (ISetFollowingHeadersForPreparedRequest env s cacheKey headersTemplate) = s
          \<and> fst (ISetFollowingHeadersForPreparedRequest env s cacheKey headersTemplate) \<noteq> None
          \<and> (\<forall>headers headersMap.
                TemplateEngine s headersTemplate (Cache s) = Inr headers
                \<and> Deserialize_Headers (Deserializer s) headers = Inr headersMap \<longrightarrow>
                fst (ISetFollowingHeadersForPreparedRequest env s cacheKey headersTemplate) = Some e)
          \<and> (\<forall>err. TemplateEngine s headersTemplate (Cache s) = Inl err \<longrightarrow>
                fst (ISetFollowingHeadersForPreparedRequest env s cacheKey headersTemplate)
                  = Some (Foreign err))
          \<and> (\<forall>headers err.
                TemplateEngine s headersTemplate (Cache s) = Inr headers
                \<and> Deserialize_Headers (Deserializer s) headers = Inl err \<longrightarrow>
                fst (ISetFollowingHeadersForPreparedRequest env s cacheKey headersTemplate)
                  = Some (Errorf ErrGdutils (MsgCouldNotParseHeaders headers err)))"
proof -
  define e where "e = (if Cache s cacheKey = None
                then Errorf ErrGdutils (MsgCause (Cache_NotFound s cacheKey))
                else Errorf ErrPreservedData (MsgNotARequest cacheKey))"
  have g: "getPreparedRequest s cacheKey = Inl e"
  proof (cases "Cache s cacheKey")
    case None
    then show ?thesis by (simp add: e_def getPreparedRequest_absent)
  next
    case (Some v)
    with assms have "\<forall>a. v \<noteq> CRequest a" by simp
    with Some show ?thesis by (simp add: e_def getPreparedRequest_not_a_request)
  qed
  note l = lookup_failure_steps [OF g]
  show ?thesis
  proof (intro exI [of _ e] conjI allI impI)
    show "e = (if Cache s cacheKey = None
                then Errorf ErrGdutils (MsgCause (Cache_NotFound s cacheKey))
                else Errorf ErrPreservedData (MsgNotARequest cacheKey))"
      by (rule e_def)
    show "getPreparedRequest s cacheKey = Inl e" by (rule g)
    show "ISendRequest env s cacheKey = (Some e, s)" by (rule l(1))
    show "snd (ISetFollowingBodyForPreparedRequest s cacheKey bodyTemplate) = s" by (rule l(2))
    show "fst (ISetFollowingBodyForPreparedRequest s cacheKey bodyTemplate) \<noteq> None" by (rule l(3))
    show "fst (ISetFollowingBodyForPreparedRequest s cacheKey bodyTemplate) = Some e"
      if "TemplateEngine s bodyTemplate (Cache s) = Inr body" for body
      using that by (rule l(4))
    show "fst (ISetFollowingBodyForPreparedRequest s cacheKey bodyTemplate) = Some (Foreign err)"
      if "TemplateEngine s bodyTemplate (Cache s) = Inl err" for err
      by (simp add: ISetFollowingBody_template_error [OF that])
    show "snd (ISetFollowingHeadersForPreparedRequest env s cacheKey headersTemplate) = s"
      by (rule l(5))
    show "fst (ISetFollowingHeadersForPreparedRequest env s cacheKey headersTemplate) \<noteq> None"
      by (rule l(6))
    show "fst (ISetFollowingHeadersForPreparedRequest env s cacheKey headersTemplate) = Some e"
      if "TemplateEngine s headersTemplate (Cache s) = Inr headers
          \<and> Deserialize_Headers (Deserializer s) headers = Inr headersMap" for headers headersMap
      using that l(7) by blast
    show "fst (ISetFollowingHeadersForPreparedRequest env s cacheKey headersTemplate)
            = Some (Foreign err)"
      if "TemplateEngine s headersTemplate (Cache s) = Inl err" for err
      by (simp add: ISetFollowingHeaders_template_error [OF that])
    show "fst (ISetFollowingHeadersForPreparedRequest env s cacheKey headersTemplate)
            = Some (Errorf ErrGdutils (MsgCouldNotParseHeaders headers err))"
      if "TemplateEngine s headersTemplate (Cache s) = Inr headers
          \<and> Deserialize_Headers (Deserializer s) headers = Inl err" for headers err
    proof -
      from that have t: "TemplateEngine s headersTemplate (Cache s) = Inr headers"
        and d: "Deserialize_Headers (Deserializer s) headers = Inl err"
        by blast+
      show ?thesis
        by (simp add: ISetFollowingHeaders_deserialize_error [OF t d])
    qed
  qed
qed

theorem prepared_request_lookup_failure_witness:
  "Cache (demo_state []) ''REQ'' = None
   \<and> ISendRequest demo_env (demo_state []) ''REQ''
       = (Some (Errorf ErrGdutils (MsgCause ''not found: REQ'')), demo_state [])
   \<and> fst (ISetFollowingBodyForPreparedRequest (demo_state []) ''REQ'' ''b'')
       = Some (Errorf ErrGdutils (MsgCause ''not found: REQ''))
   \<and> fst (ISetFollowingHeadersForPreparedRequest demo_env (demo_state []) ''REQ'' ''h'')
       = Some (Errorf ErrGdutils (MsgCause ''not found: REQ''))
   \<and> Cache responded_state ''LAST_HTTP_RESPONSE'' = Some (CResponse demo_response)
   \<and> ISendRequest demo_env responded_state ''LAST_HTTP_RESPONSE''
       = (Some (Errorf ErrPreservedData (MsgNotARequest ''LAST_HTTP_RESPONSE'')), responded_state)
   \<and> Cache failing_template_state ''REQ'' = None
   \<and> fst (ISetFollowingHeadersForPreparedRequest demo_env failing_template_state ''REQ'' ''h'')
       = Some (Foreign ''unknown placeholder'')
   \<and> Cache failing_deserializer_state ''REQ'' = None
   \<and> fst (ISetFollowingHeadersForPreparedRequest demo_env failing_deserializer_state ''REQ'' ''h'')
       = Some (Errorf ErrGdutils (MsgCouldNotParseHeaders ''h'' ''invalid character''))"
proof -
  have a: "Cache (demo_state []) ''REQ'' = None"
    by (simp add: demo_defs)
  have b: "Cache responded_state ''LAST_HTTP_RESPONSE'' = Some (CResponse demo_response)"
    by (simp add: demo_defs)
  have c: "Cache failing_template_state ''REQ'' = None"
    by (simp add: demo_defs)
  have d: "Cache failing_deserializer_state ''REQ'' = None"
    by (simp add: demo_defs)
  have n: "Cache_NotFound (demo_state []) ''REQ'' = ''not found: REQ''"
    by (simp add: demo_defs)
  have ta: "TemplateEngine (demo_state []) x (Cache (demo_state [])) = Inr x" for x
    by (simp add: demo_defs)
  have da: "Deserialize_Headers (Deserializer (demo_state [])) x = Inr [(''Accept'', x)]" for x
    by (simp add: demo_defs)
  have tc: "TemplateEngine failing_template_state ''h'' (Cache failing_template_state)
              = Inl ''unknown placeholder''"
    by (simp add: demo_defs)
  have td: "TemplateEngine failing_deserializer_state ''h'' (Cache failing_deserializer_state)
              = Inr ''h''"
    by (simp add: demo_defs)
  have dd: "Deserialize_Headers (Deserializer failing_deserializer_state) ''h''
              = Inl ''invalid character''"
    by (simp add: demo_defs)
  have a': "Cache (demo_state []) ''REQ'' = None
            \<or> (\<exists>v. Cache (demo_state []) ''REQ'' = Some v \<and> (\<forall>a. v \<noteq> CRequest a))"
    using a by simp
  have b': "Cache responded_state ''LAST_HTTP_RESPONSE'' = None
            \<or> (\<exists>v. Cache responded_state ''LAST_HTTP_RESPONSE'' = Some v \<and> (\<forall>a. v \<noteq> CRequest a))"
    using b by simp
  have c': "Cache failing_template_state ''REQ'' = None
            \<or> (\<exists>v. Cache failing_template_state ''REQ'' = Some v \<and> (\<forall>a. v \<noteq> CRequest a))"
    using c by simp
  have d': "Cache failing_deserializer_state ''REQ'' = None
            \<or> (\<exists>v. Cache failing_deserializer_state ''REQ'' = Some v \<and> (\<forall>a. v \<noteq> CRequest a))"
    using d by simp
  from prepared_request_lookup_failure [OF a', where env = demo_env and bodyTemplate = "''b''"
      and headersTemplate = "''h''"]
  obtain e where e: "e = (if Cache (demo_state []) ''REQ'' = None
                then Errorf ErrGdutils (MsgCause (Cache_NotFound (demo_state []) ''REQ''))
                else Errorf ErrPreservedData (MsgNotARequest ''REQ''))"
    and e1: "ISendRequest demo_env (demo_state []) ''REQ'' = (Some e, demo_state [])"
    and e2: "\<forall>body. TemplateEngine (demo_state []) ''b'' (Cache (demo_state [])) = Inr body \<longrightarrow>
                fst (ISetFollowingBodyForPreparedRequest (demo_state []) ''REQ'' ''b'') = Some e"
    and e3: "\<forall>headers headersMap.
                TemplateEngine (demo_state []) ''h'' (Cache (demo_state [])) = Inr headers
                \<and> Deserialize_Headers (Deserializer (demo_state [])) headers = Inr headersMap \<longrightarrow>
                fst (ISetFollowingHeadersForPreparedRequest demo_env (demo_state []) ''REQ'' ''h'')
                  = Some e"
    by (elim exE conjE) (rule that, assumption+)
  have ev: "e = Errorf ErrGdutils (MsgCause ''not found: REQ'')"
    unfolding e by (simp only: a n simp_thms if_True)
  have 1: "ISendRequest demo_env (demo_state []) ''REQ''
             = (Some (Errorf ErrGdutils (MsgCause ''not found: REQ'')), demo_state [])"
    using e1 unfolding ev .
  have sb: "fst (ISetFollowingBodyForPreparedRequest (demo_state []) ''REQ'' ''b'')
             = Some (Errorf ErrGdutils (MsgCause ''not found: REQ''))"
    using e2 [THEN spec, of "''b''"] ta [of "''b''"] unfolding ev by (rule mp)
  have sh: "fst (ISetFollowingHeadersForPreparedRequest demo_env (demo_state []) ''REQ'' ''h'')
             = Some (Errorf ErrGdutils (MsgCause ''not found: REQ''))"
    using e3 [THEN spec, THEN spec, of "''h''" "[(''Accept'', ''h'')]"] ta [of "''h''"] da [of "''h''"]
    unfolding ev by blast
  from prepared_request_lookup_failure [OF b', where env = demo_env and bodyTemplate = "''b''"
      and headersTemplate = "''h''"]
  have 2: "ISendRequest demo_env responded_state ''LAST_HTTP_RESPONSE''
             = (Some (Errorf ErrPreservedData (MsgNotARequest ''LAST_HTTP_RESPONSE'')), responded_state)"
    by (elim exE conjE) (simp only: b option.distinct simp_thms if_False)
  from prepared_request_lookup_failure [OF c', where env = demo_env and bodyTemplate = "''b''"
      and headersTemplate = "''h''"] tc
  have 3: "fst (ISetFollowingHeadersForPreparedRequest demo_env failing_template_state ''REQ'' ''h'')
             = Some (Foreign ''unknown placeholder'')"
    by (elim exE conjE) blast
  from prepared_request_lookup_failure [OF d', where env = demo_env and bodyTemplate = "''b''"
      and headersTemplate = "''h''"] td dd
  have 4: "fst (ISetFollowingHeadersForPreparedRequest demo_env failing_deserializer_state ''REQ'' ''h'')
             = Some (Errorf ErrGdutils (MsgCouldNotParseHeaders ''h'' ''invalid character''))"
    by (elim exE conjE) blast
  from a 1 sb sh b 2 c 3 d 4 show ?thesis by (intro conjI)
qed

text \<open>
  C9 as stated names the cache-miss error for every operation on an absent key. With a
  template that cannot be substituted, ISetFollowingBodyForPreparedRequest on an absent
  key returns the error of the template engine, not the cache-miss error of the lookup.
\<close>

theorem set_body_reports_template_error_first:
  "Cache failing_template_state ''REQ'' = None
   \<and> getPreparedRequest failing_template_state ''REQ''
       = Inl (Errorf ErrGdutils (MsgCause ''not found: REQ''))
   \<and> ISetFollowingBodyForPreparedRequest failing_template_state ''REQ'' ''{{.BODY}}''
       = (Some (Foreign ''unknown placeholder''), failing_template_state)"
proof -
  have a: "Cache failing_template_state ''REQ'' = None"
    by (simp add: demo_defs)
  have n: "Cache_NotFound failing_template_state ''REQ'' = ''not found: REQ''"
    by (simp add: demo_defs)
  have t: "TemplateEngine failing_template_state ''{{.BODY}}'' (Cache failing_template_state)
             = Inl ''unknown placeholder''"
    by (simp add: demo_defs)
  from getPreparedRequest_absent [OF a] n
  have g: "getPreparedRequest failing_template_state ''REQ''
             = Inl (Errorf ErrGdutils (MsgCause ''not found: REQ''))"
    by simp
  from a g ISetFollowingBody_template_error [OF t] show ?thesis by (intro conjI)
qed

section \<open>Properties of the send paths\<close>

text \<open>
  What a send does once the request is at hand: its result, the cache it leaves, and for
  a prepared request the object and the list of dispatched requests.
\<close>

lemma ISendRequest_found:
  assumes "getPreparedRequest s cacheKey = Inr req"
  shows "fst (ISendRequest env s cacheKey)
           = (case Result (GetHTTPClient_Do (HttpContext s) (Clock s) (Heap s req)) of
                Inl err \<Rightarrow> Some (Errorf ErrHTTPReqRes (MsgCause err))
              | Inr resp \<Rightarrow> None)"
    and "Cache (snd (ISendRequest env s cacheKey))
           = (case Result (GetHTTPClient_Do (HttpContext s) (Clock s) (Heap s req)) of
                Inl err \<Rightarrow> (Cache s)(LastHTTPRequestTimestamp env \<mapsto> CTime (Clock s))
              | Inr resp \<Rightarrow>
                  (Cache s)(LastHTTPRequestTimestamp env \<mapsto> CTime (Clock s),
                    LastHTTPResponseTimestamp env \<mapsto>
                      CTime (Clock s + Elapsed (GetHTTPClient_Do (HttpContext s) (Clock s) (Heap s req))),
                    LastHTTPResponseCacheKey env \<mapsto> CResponse resp))"
    and "Heap (snd (ISendRequest env s cacheKey))
           = (Heap s)(req := ReqAfter (GetHTTPClient_Do (HttpContext s) (Clock s) (Heap s req)))"
    and "Dispatched (snd (ISendRequest env s cacheKey)) = Dispatched s @ [Heap s req]"
  using assms
  by (simp_all add: ISendRequest_def HTTPClient_Do_def Let_def time_Now_def split: sum.splits)

lemma ISendRequestTo_built:
  assumes "TemplateEngine s bodyTemplate (Cache s) = Inr input"
    and "TemplateEngine s urlTemplate (Cache s) = Inr url"
    and "Deserialize_BodyHeaders (Deserializer s) input = Inr bodyAndHeaders"
    and "json_Marshal env (BH_Body bodyAndHeaders) = Inr reqBody"
    and "http_NewRequest env method url (Some reqBody) = Inr req0"
  shows "fst (ISendRequestToWithBodyAndHeaders env s method urlTemplate bodyTemplate)
           = (case Result (GetHTTPClient_Do (HttpContext s) (Clock s)
                     (req0\<lparr>Header := set_headers env (Header req0) (BH_Headers bodyAndHeaders)\<rparr>)) of
                Inl err \<Rightarrow> Some (Errorf ErrHTTPReqRes (MsgCause err))
              | Inr resp \<Rightarrow> None)"
    and "Cache (snd (ISendRequestToWithBodyAndHeaders env s method urlTemplate bodyTemplate))
           = (case Result (GetHTTPClient_Do (HttpContext s) (Clock s)
                     (req0\<lparr>Header := set_headers env (Header req0) (BH_Headers bodyAndHeaders)\<rparr>)) of
                Inl err \<Rightarrow> (Cache s)(LastHTTPRequestTimestamp env \<mapsto> CTime (Clock s))
              | Inr resp \<Rightarrow>
                  (Cache s)(LastHTTPRequestTimestamp env \<mapsto> CTime (Clock s),
                    LastHTTPResponseTimestamp env \<mapsto>
                      CTime (Clock s + Elapsed (GetHTTPClient_Do (HttpContext s) (Clock s)
                        (req0\<lparr>Header := set_headers env (Header req0) (BH_Headers bodyAndHeaders)\<rparr>))),
                    LastHTTPResponseCacheKey env \<mapsto> CResponse resp))"
  using assms
  by (simp_all add: ISendRequestToWithBodyAndHeaders_def HTTPClient_Do_def Let_def time_Now_def
      split: sum.splits)

lemma ISendRequest_success_timestamps:
  assumes "fst (ISendRequest env s cacheKey) = None"
  shows "Cache (snd (ISendRequest env s cacheKey)) (LastHTTPRequestTimestamp env) \<noteq> None
       \<and> Cache (snd (ISendRequest env s cacheKey)) (LastHTTPResponseTimestamp env) \<noteq> None"
proof (cases "getPreparedRequest s cacheKey")
  case (Inl e)
  with assms show ?thesis by (simp add: ISendRequest_def)
next
  case (Inr req)
  from assms show ?thesis
    unfolding ISendRequest_found [OF Inr]
    by (simp split: sum.splits)
qed

lemma ISendRequestTo_success_timestamps:
  assumes "fst (ISendRequestToWithBodyAndHeaders env s method urlTemplate bodyTemplate) = None"
  shows "Cache (snd (ISendRequestToWithBodyAndHeaders env s method urlTemplate bodyTemplate))
           (LastHTTPRequestTimestamp env) \<noteq> None
       \<and> Cache (snd (ISendRequestToWithBodyAndHeaders env s method urlTemplate bodyTemplate))
           (LastHTTPResponseTimestamp env) \<noteq> None"
  using assms
  by (auto simp add: ISendRequestToWithBodyAndHeaders_def HTTPClient_Do_def Let_def time_Now_def
      split: sum.splits if_splits)


lemma demo_env_keys:
  "LastHTTPRequestTimestamp demo_env = ''LAST_HTTP_REQUEST_TIMESTAMP''"
  "LastHTTPResponseTimestamp demo_env = ''LAST_HTTP_RESPONSE_TIMESTAMP''"
  "LastHTTPResponseCacheKey demo_env = ''LAST_HTTP_RESPONSE''"
  by (simp_all add: demo_env_def)

lemma prepared_state_facts:
  "Cache prepared_state = [''REQ'' \<mapsto> CRequest 0]"
  "Heap prepared_state a = prepared_request"
  "Clock prepared_state = 0"
  "Dispatched prepared_state = []"
  "GetHTTPClient_Do (HttpContext prepared_state) t r
     = \<lparr>ReqAfter = r, Elapsed = 1, Result = Inl ''connection refused''\<rparr>"
  by (simp_all add: demo_defs)

lemma collision_state_facts:
  "Cache collision_state = [''LAST_HTTP_REQUEST_TIMESTAMP'' \<mapsto> CRequest 0]"
  "Heap collision_state a = prepared_request"
  "Clock collision_state = 0"
  "Dispatched collision_state = []"
  "GetHTTPClient_Do (HttpContext collision_state) t r
     = \<lparr>ReqAfter = r, Elapsed = 1, Result = Inl ''connection refused''\<rparr>"
  by (simp_all add: demo_defs)

lemma answering_state_facts:
  "Cache answering_state = [''REQ'' \<mapsto> CRequest 0]"
  "Heap answering_state a = prepared_request"
  "Clock answering_state = 0"
  "GetHTTPClient_Do (HttpContext answering_state) t r
     = \<lparr>ReqAfter = r, Elapsed = 5, Result = Inr demo_response\<rparr>"
  "TemplateEngine answering_state x c = Inr x"
  "Deserialize_BodyHeaders (Deserializer answering_state) x = Inr \<lparr>BH_Body = GoNil, BH_Headers = []\<rparr>"
  by (simp_all add: answering_state_def prepared_state_def demo_state_def demo_http_def)

lemma demo_env_library:
  "json_Marshal demo_env v = Inr ''null''"
  "http_NewRequest demo_env m u b = Inr \<lparr>Method = m, URL = u, Header = Map.empty, Body = b\<rparr>"
  by (simp_all add: demo_env_def)

text \<open>
  C3, as amended. Let the cache hold a reference to a request object under the key, and
  let the three reserved keys of package httpcache be different strings. Then
  ISendRequest saves the time before the dispatch under the request-timestamp key,
  whatever the transport answers, and dispatches the request. When the transport returns
  an error, ISendRequest returns that error wrapped in ErrHTTPReqRes, and the cache is as
  before except for the request timestamp: the response timestamp and the last response
  are not written. The request object is as the HTTP client left it; ISendRequest writes
  nothing to it. If the key is not the request-timestamp key, the cache still holds the
  same request under it, and the send can be repeated.
\<close>

theorem ISendRequest_transport_failure:
  assumes "getPreparedRequest s cacheKey = Inr req"
    and "LastHTTPRequestTimestamp env \<noteq> LastHTTPResponseTimestamp env"
    and "LastHTTPRequestTimestamp env \<noteq> LastHTTPResponseCacheKey env"
  shows "Cache (snd (ISendRequest env s cacheKey)) (LastHTTPRequestTimestamp env) = Some (CTime (Clock s))
       \<and> Dispatched (snd (ISendRequest env s cacheKey)) = Dispatched s @ [Heap s req]
       \<and> (Result (GetHTTPClient_Do (HttpContext s) (Clock s) (Heap s req)) = Inl err \<longrightarrow>
            fst (ISendRequest env s cacheKey) = Some (Errorf ErrHTTPReqRes (MsgCause err))
          \<and> Cache (snd (ISendRequest env s cacheKey))
              = (Cache s)(LastHTTPRequestTimestamp env \<mapsto> CTime (Clock s))
          \<and> Cache (snd (ISendRequest env s cacheKey)) (LastHTTPResponseTimestamp env)
              = Cache s (LastHTTPResponseTimestamp env)
          \<and> Cache (snd (ISendRequest env s cacheKey)) (LastHTTPResponseCacheKey env)
              = Cache s (LastHTTPResponseCacheKey env)
          \<and> Heap (snd (ISendRequest env s cacheKey))
              = (Heap s)(req := ReqAfter (GetHTTPClient_Do (HttpContext s) (Clock s) (Heap s req)))
          \<and> (cacheKey \<noteq> LastHTTPRequestTimestamp env \<longrightarrow>
                getPreparedRequest (snd (ISendRequest env s cacheKey)) cacheKey = Inr req))"
proof -
  note f = ISendRequest_found [OF assms(1), of env]
  from assms(1) have c: "Cache s cacheKey = Some (CRequest req)"
    by (simp add: getPreparedRequest_Inr)
  have 1: "Cache (snd (ISendRequest env s cacheKey)) (LastHTTPRequestTimestamp env)
             = Some (CTime (Clock s))"
    unfolding f(2) using assms(2,3) by (simp split: sum.splits)
  have 2: "Dispatched (snd (ISendRequest env s cacheKey)) = Dispatched s @ [Heap s req]"
    by (rule f(4))
  have 3: "fst (ISendRequest env s cacheKey) = Some (Errorf ErrHTTPReqRes (MsgCause err))
          \<and> Cache (snd (ISendRequest env s cacheKey))
              = (Cache s)(LastHTTPRequestTimestamp env \<mapsto> CTime (Clock s))
          \<and> Cache (snd (ISendRequest env s cacheKey)) (LastHTTPResponseTimestamp env)
              = Cache s (LastHTTPResponseTimestamp env)
          \<and> Cache (snd (ISendRequest env s cacheKey)) (LastHTTPResponseCacheKey env)
              = Cache s (LastHTTPResponseCacheKey env)
          \<and> Heap (snd (ISendRequest env s cacheKey))
              = (Heap s)(req := ReqAfter (GetHTTPClient_Do (HttpContext s) (Clock s) (Heap s req)))
          \<and> (cacheKey \<noteq> LastHTTPRequestTimestamp env \<longrightarrow>
                getPreparedRequest (snd (ISendRequest env s cacheKey)) cacheKey = Inr req)"
    if r: "Result (GetHTTPClient_Do (HttpContext s) (Clock s) (Heap s req)) = Inl err"
    unfolding getPreparedRequest_Inr f r using assms(2,3) c by simp
  from 1 2 3 show ?thesis by blast
qed

theorem ISendRequest_transport_failure_witness:
  "getPreparedRequest prepared_state ''REQ'' = Inr 0
   \<and> fst (ISendRequest demo_env prepared_state ''REQ'')
       = Some (Errorf ErrHTTPReqRes (MsgCause ''connection refused''))
   \<and> Cache (snd (ISendRequest demo_env prepared_state ''REQ''))
       = [''REQ'' \<mapsto> CRequest 0, ''LAST_HTTP_REQUEST_TIMESTAMP'' \<mapsto> CTime 0]
   \<and> Dispatched (snd (ISendRequest demo_env prepared_state ''REQ'')) = [prepared_request]
   \<and> getPreparedRequest (snd (ISendRequest demo_env prepared_state ''REQ'')) ''REQ'' = Inr 0"
proof -
  have g: "getPreparedRequest prepared_state ''REQ'' = Inr 0"
    by (simp add: getPreparedRequest_Inr prepared_state_facts)
  have d1: "LastHTTPRequestTimestamp demo_env \<noteq> LastHTTPResponseTimestamp demo_env"
    by (simp add: demo_env_keys)
  have d2: "LastHTTPRequestTimestamp demo_env \<noteq> LastHTTPResponseCacheKey demo_env"
    by (simp add: demo_env_keys)
  from ISendRequest_transport_failure [OF g d1 d2, of "''connection refused''"] g show ?thesis
    by (simp add: prepared_state_facts demo_env_keys)
qed

lemma consuming_state_facts:
  "Cache consuming_state = [''REQ'' \<mapsto> CRequest 0]"
  "Heap consuming_state a = prepared_request"
  "Clock consuming_state = 0"
  "Dispatched consuming_state = []"
  "GetHTTPClient_Do (HttpContext consuming_state) t r
     = \<lparr>ReqAfter = r\<lparr>Body := Some []\<rparr>, Elapsed = 1, Result = Inl ''connection reset''\<rparr>"
  by (simp_all add: demo_defs)

text \<open>
  C3 as stated has the prepared request object unchanged by a failed send, and the send
  repeatable with the same key. Neither holds for every send. With a transport that reads
  the body of the request before it returns its error, the object under the key
  \<open>REQ\<close> has the body "old body" before the send and a body with nothing left to read
  after it. And a request prepared under the key of the request timestamp is replaced in
  the cache by the timestamp of the failed attempt: the second send with that key fails
  with the wrong-type error.
\<close>

theorem failed_send_changes_object_or_entry:
  "getPreparedRequest consuming_state ''REQ'' = Inr 0
   \<and> Body (Heap consuming_state 0) = Some ''old body''
   \<and> fst (ISendRequest demo_env consuming_state ''REQ'')
       = Some (Errorf ErrHTTPReqRes (MsgCause ''connection reset''))
   \<and> Body (Heap (snd (ISendRequest demo_env consuming_state ''REQ'')) 0) = Some []
   \<and> Heap (snd (ISendRequest demo_env consuming_state ''REQ'')) 0 \<noteq> Heap consuming_state 0
   \<and> getPreparedRequest collision_state ''LAST_HTTP_REQUEST_TIMESTAMP'' = Inr 0
   \<and> fst (ISendRequest demo_env collision_state ''LAST_HTTP_REQUEST_TIMESTAMP'')
       = Some (Errorf ErrHTTPReqRes (MsgCause ''connection refused''))
   \<and> Cache (snd (ISendRequest demo_env collision_state ''LAST_HTTP_REQUEST_TIMESTAMP''))
         ''LAST_HTTP_REQUEST_TIMESTAMP''
       = Some (CTime 0)
   \<and> fst (ISendRequest demo_env
             (snd (ISendRequest demo_env collision_state ''LAST_HTTP_REQUEST_TIMESTAMP''))
             ''LAST_HTTP_REQUEST_TIMESTAMP'')
       = Some (Errorf ErrPreservedData (MsgNotARequest ''LAST_HTTP_REQUEST_TIMESTAMP''))"
proof -
  have k: "getPreparedRequest consuming_state ''REQ'' = Inr 0"
    by (simp add: getPreparedRequest_Inr consuming_state_facts)
  note c = ISendRequest_found [OF k, of demo_env]
  have b0: "Body (Heap consuming_state 0) = Some ''old body''"
    by (simp add: consuming_state_facts prepared_request_def)
  have c1: "fst (ISendRequest demo_env consuming_state ''REQ'')
       = Some (Errorf ErrHTTPReqRes (MsgCause ''connection reset''))"
    unfolding c by (simp add: consuming_state_facts)
  have c2: "Body (Heap (snd (ISendRequest demo_env consuming_state ''REQ'')) 0) = Some []"
    unfolding c by (simp add: consuming_state_facts)
  have c3: "Heap (snd (ISendRequest demo_env consuming_state ''REQ'')) 0 \<noteq> Heap consuming_state 0"
  proof
    assume "Heap (snd (ISendRequest demo_env consuming_state ''REQ'')) 0 = Heap consuming_state 0"
    then have "Body (Heap (snd (ISendRequest demo_env consuming_state ''REQ'')) 0)
                 = Body (Heap consuming_state 0)"
      by (rule arg_cong)
    with b0 c2 show False by simp
  qed
  have g: "getPreparedRequest collision_state ''LAST_HTTP_REQUEST_TIMESTAMP'' = Inr 0"
    by (simp add: getPreparedRequest_Inr collision_state_facts)
  note f = ISendRequest_found [OF g, of demo_env]
  have 1: "fst (ISendRequest demo_env collision_state ''LAST_HTTP_REQUEST_TIMESTAMP'')
       = Some (Errorf ErrHTTPReqRes (MsgCause ''connection refused''))"
    unfolding f by (simp add: collision_state_facts)
  have 2: "Cache (snd (ISendRequest demo_env collision_state ''LAST_HTTP_REQUEST_TIMESTAMP''))
         ''LAST_HTTP_REQUEST_TIMESTAMP'' = Some (CTime 0)"
    unfolding f by (simp add: collision_state_facts demo_env_keys)
  have 3: "getPreparedRequest (snd (ISendRequest demo_env collision_state ''LAST_HTTP_REQUEST_TIMESTAMP''))
             ''LAST_HTTP_REQUEST_TIMESTAMP''
           = Inl (Errorf ErrPreservedData (MsgNotARequest ''LAST_HTTP_REQUEST_TIMESTAMP''))"
    using 2 by (simp add: getPreparedRequest_def Cache_GetSaved_def)
  have 4: "fst (ISendRequest demo_env
             (snd (ISendRequest demo_env collision_state ''LAST_HTTP_REQUEST_TIMESTAMP''))
             ''LAST_HTTP_REQUEST_TIMESTAMP'')
       = Some (Errorf ErrPreservedData (MsgNotARequest ''LAST_HTTP_REQUEST_TIMESTAMP''))"
    using 3 by (simp add: ISendRequest_def)
  from k b0 c1 c2 c3 g 1 2 4 show ?thesis by (intro conjI)
qed

text \<open>
  C4, as amended. On both send paths, a send that returns nil leaves a last-request
  timestamp and a last-response timestamp in the cache. A send whose transport returns an
  error changes the cache in the request timestamp only: the response timestamp is not
  written, and is in the cache after the send exactly if it was before.
\<close>

theorem send_paths_timestamps:
  "(fst (ISendRequest env s cacheKey) = None \<longrightarrow>
      Cache (snd (ISendRequest env s cacheKey)) (LastHTTPRequestTimestamp env) \<noteq> None
    \<and> Cache (snd (ISendRequest env s cacheKey)) (LastHTTPResponseTimestamp env) \<noteq> None)
 \<and> (fst (ISendRequestToWithBodyAndHeaders env s method urlTemplate bodyTemplate) = None \<longrightarrow>
      Cache (snd (ISendRequestToWithBodyAndHeaders env s method urlTemplate bodyTemplate))
        (LastHTTPRequestTimestamp env) \<noteq> None
    \<and> Cache (snd (ISendRequestToWithBodyAndHeaders env s method urlTemplate bodyTemplate))
        (LastHTTPResponseTimestamp env) \<noteq> None)
 \<and> (getPreparedRequest s cacheKey = Inr req
      \<and> Result (GetHTTPClient_Do (HttpContext s) (Clock s) (Heap s req)) = Inl err \<longrightarrow>
      Cache (snd (ISendRequest env s cacheKey))
        = (Cache s)(LastHTTPRequestTimestamp env \<mapsto> CTime (Clock s)))
 \<and> (TemplateEngine s bodyTemplate (Cache s) = Inr input
      \<and> TemplateEngine s urlTemplate (Cache s) = Inr url
      \<and> Deserialize_BodyHeaders (Deserializer s) input = Inr bodyAndHeaders
      \<and> json_Marshal env (BH_Body bodyAndHeaders) = Inr reqBody
      \<and> http_NewRequest env method url (Some reqBody) = Inr req0
      \<and> Result (GetHTTPClient_Do (HttpContext s) (Clock s)
            (req0\<lparr>Header := set_headers env (Header req0) (BH_Headers bodyAndHeaders)\<rparr>)) = Inl err'
      \<longrightarrow>
      Cache (snd (ISendRequestToWithBodyAndHeaders env s method urlTemplate bodyTemplate))
        = (Cache s)(LastHTTPRequestTimestamp env \<mapsto> CTime (Clock s)))"
proof (intro conjI impI)
  assume "fst (ISendRequest env s cacheKey) = None"
  from ISendRequest_success_timestamps [OF this]
  show "Cache (snd (ISendRequest env s cacheKey)) (LastHTTPRequestTimestamp env) \<noteq> None"
    and "Cache (snd (ISendRequest env s cacheKey)) (LastHTTPResponseTimestamp env) \<noteq> None"
    by simp_all
next
  assume "fst (ISendRequestToWithBodyAndHeaders env s method urlTemplate bodyTemplate) = None"
  from ISendRequestTo_success_timestamps [OF this]
  show "Cache (snd (ISendRequestToWithBodyAndHeaders env s method urlTemplate bodyTemplate))
          (LastHTTPRequestTimestamp env) \<noteq> None"
    and "Cache (snd (ISendRequestToWithBodyAndHeaders env s method urlTemplate bodyTemplate))
          (LastHTTPResponseTimestamp env) \<noteq> None"
    by simp_all
next
  assume "getPreparedRequest s cacheKey = Inr req
      \<and> Result (GetHTTPClient_Do (HttpContext s) (Clock s) (Heap s req)) = Inl err"
  then show "Cache (snd (ISendRequest env s cacheKey))
        = (Cache s)(LastHTTPRequestTimestamp env \<mapsto> CTime (Clock s))"
    by (simp add: ISendRequest_found(2))
next
  assume a: "TemplateEngine s bodyTemplate (Cache s) = Inr input
      \<and> TemplateEngine s urlTemplate (Cache s) = Inr url
      \<and> Deserialize_BodyHeaders (Deserializer s) input = Inr bodyAndHeaders
      \<and> json_Marshal env (BH_Body bodyAndHeaders) = Inr reqBody
      \<and> http_NewRequest env method url (Some reqBody) = Inr req0
      \<and> Result (GetHTTPClient_Do (HttpContext s) (Clock s)
            (req0\<lparr>Header := set_headers env (Header req0) (BH_Headers bodyAndHeaders)\<rparr>)) = Inl err'"
  then have b: "TemplateEngine s bodyTemplate (Cache s) = Inr input"
    "TemplateEngine s urlTemplate (Cache s) = Inr url"
    "Deserialize_BodyHeaders (Deserializer s) input = Inr bodyAndHeaders"
    "json_Marshal env (BH_Body bodyAndHeaders) = Inr reqBody"
    "http_NewRequest env method url (Some reqBody) = Inr req0"
    and r: "Result (GetHTTPClient_Do (HttpContext s) (Clock s)
            (req0\<lparr>Header := set_headers env (Header req0) (BH_Headers bodyAndHeaders)\<rparr>)) = Inl err'"
    by blast+
  show "Cache (snd (ISendRequestToWithBodyAndHeaders env s method urlTemplate bodyTemplate))
        = (Cache s)(LastHTTPRequestTimestamp env \<mapsto> CTime (Clock s))"
    unfolding ISendRequestTo_built(2) [OF b] r by simp
qed

theorem send_paths_timestamps_witness:
  "fst (ISendRequest demo_env answering_state ''REQ'') = None
   \<and> Cache (snd (ISendRequest demo_env answering_state ''REQ'')) ''LAST_HTTP_REQUEST_TIMESTAMP'' \<noteq> None
   \<and> Cache (snd (ISendRequest demo_env answering_state ''REQ'')) ''LAST_HTTP_RESPONSE_TIMESTAMP'' \<noteq> None
   \<and> fst (ISendRequestToWithBodyAndHeaders demo_env answering_state ''GET'' ''http://localhost/'' ''{}'') = None
   \<and> Cache (snd (ISendRequestToWithBodyAndHeaders demo_env answering_state ''GET'' ''http://localhost/'' ''{}''))
        ''LAST_HTTP_REQUEST_TIMESTAMP'' \<noteq> None
   \<and> Cache (snd (ISendRequestToWithBodyAndHeaders demo_env answering_state ''GET'' ''http://localhost/'' ''{}''))
        ''LAST_HTTP_RESPONSE_TIMESTAMP'' \<noteq> None
   \<and> Cache (snd (ISendRequest demo_env prepared_state ''REQ''))
       = [''REQ'' \<mapsto> CRequest 0, ''LAST_HTTP_REQUEST_TIMESTAMP'' \<mapsto> CTime 0]
   \<and> Cache (snd (ISendRequestToWithBodyAndHeaders demo_env prepared_state ''GET'' ''http://localhost/'' ''{}''))
       = [''REQ'' \<mapsto> CRequest 0, ''LAST_HTTP_REQUEST_TIMESTAMP'' \<mapsto> CTime 0]"
proof -
  have g: "getPreparedRequest answering_state ''REQ'' = Inr 0"
    by (simp add: getPreparedRequest_Inr answering_state_facts)
  have a1: "fst (ISendRequest demo_env answering_state ''REQ'') = None"
    unfolding ISendRequest_found [OF g] by (simp add: answering_state_facts)
  have a2: "fst (ISendRequestToWithBodyAndHeaders demo_env answering_state ''GET'' ''http://localhost/'' ''{}'') = None"
    by (subst ISendRequestTo_built(1) [where input = "''{}''" and url = "''http://localhost/''"
          and bodyAndHeaders = "\<lparr>BH_Body = GoNil, BH_Headers = []\<rparr>" and reqBody = "''null''"
          and ?req0.0 = "\<lparr>Method = ''GET'', URL = ''http://localhost/'', Header = Map.empty, Body = Some ''null''\<rparr>"])
       (simp_all add: answering_state_facts demo_env_library)
  have g': "getPreparedRequest prepared_state ''REQ'' = Inr 0"
    by (simp add: getPreparedRequest_Inr prepared_state_facts)
  have p: "TemplateEngine prepared_state x c = Inr x"
    "Deserialize_BodyHeaders (Deserializer prepared_state) x = Inr \<lparr>BH_Body = GoNil, BH_Headers = []\<rparr>" for x c
    by (simp_all add: prepared_state_def demo_state_def)
  note w1 = send_paths_timestamps [of demo_env answering_state "''REQ''" "''GET''" "''http://localhost/''" "''{}''"]
  note w2 = send_paths_timestamps [of demo_env prepared_state "''REQ''" "''GET''" "''http://localhost/''" "''{}''" 0
      "''connection refused''" "''{}''" "''http://localhost/''" "\<lparr>BH_Body = GoNil, BH_Headers = []\<rparr>"
      "''null''" "\<lparr>Method = ''GET'', URL = ''http://localhost/'', Header = Map.empty, Body = Some ''null''\<rparr>"
      "''connection refused''"]
  from w1 a1 a2 have s1: "Cache (snd (ISendRequest demo_env answering_state ''REQ'')) (LastHTTPRequestTimestamp demo_env) \<noteq> None
    \<and> Cache (snd (ISendRequest demo_env answering_state ''REQ'')) (LastHTTPResponseTimestamp demo_env) \<noteq> None
    \<and> Cache (snd (ISendRequestToWithBodyAndHeaders demo_env answering_state ''GET'' ''http://localhost/'' ''{}''))
        (LastHTTPRequestTimestamp demo_env) \<noteq> None
    \<and> Cache (snd (ISendRequestToWithBodyAndHeaders demo_env answering_state ''GET'' ''http://localhost/'' ''{}''))
        (LastHTTPResponseTimestamp demo_env) \<noteq> None"
    by blast
  from w2 g' have s2: "Cache (snd (ISendRequest demo_env prepared_state ''REQ''))
       = [''REQ'' \<mapsto> CRequest 0, ''LAST_HTTP_REQUEST_TIMESTAMP'' \<mapsto> CTime 0]
   \<and> Cache (snd (ISendRequestToWithBodyAndHeaders demo_env prepared_state ''GET'' ''http://localhost/'' ''{}''))
       = [''REQ'' \<mapsto> CRequest 0, ''LAST_HTTP_REQUEST_TIMESTAMP'' \<mapsto> CTime 0]"
    by (simp add: prepared_state_facts demo_env_keys demo_env_library p)
  from a1 a2 s1 s2 show ?thesis
    by (simp add: demo_env_keys)
qed

text \<open>
  C4 as stated has the two timestamps present together after any send. After the first
  send of a scenario, refused by the transport, the request has been dispatched, the
  request timestamp is in the cache and the response timestamp is not.
\<close>

theorem request_timestamp_without_response_timestamp:
  "Dispatched (snd (ISendRequest demo_env prepared_state ''REQ'')) = [prepared_request]
   \<and> Cache (snd (ISendRequest demo_env prepared_state ''REQ'')) ''LAST_HTTP_REQUEST_TIMESTAMP''
       = Some (CTime 0)
   \<and> Cache (snd (ISendRequest demo_env prepared_state ''REQ'')) ''LAST_HTTP_RESPONSE_TIMESTAMP''
       = None"
proof -
  have g: "getPreparedRequest prepared_state ''REQ'' = Inr 0"
    by (simp add: getPreparedRequest_Inr prepared_state_facts)
  show ?thesis
    unfolding ISendRequest_found [OF g]
    by (simp add: prepared_state_facts demo_env_keys)
qed


end
